theory Spec2Isabelle
  imports Complex_Main
begin

section \<open>Tensors, slices and exceptions\<close>

text \<open>
  The orchestrators of \<^verbatim>\<open>trlx/orchestrator/ppo_orchestrator.py\<close> work on torch tensors.
  A one-dimensional tensor is a list, a two-dimensional tensor the list of its rows, the
  logits (batch, position, vocabulary) a list of rows of logit vectors. Token ids are
  naturals, mask entries integers. The logits, log-probabilities and values are read as
  reals: rounding is outside this model, which is about which value is stored at which
  position. The scores are divided by a standard deviation that may be zero or NaN, so
  what the division yields, and with it every reward, is a \<open>tfloat\<close>: a number, an infinity
  or NaN.

  Every exception the source can raise is a value: a computation returns
  \<open>error + 'a\<close>, with \<open>Inl\<close> the exception.
\<close>

datatype error = StopIteration | IndexError | TypeError | ShapeError | UnboundLocalError

datatype tfloat = Num real | PosInf | NegInf | NaN

text \<open>\<^verbatim>\<open>t.shape[1]\<close> of a two-dimensional tensor: the common length of its rows.\<close>

definition shape1 :: "'a list list \<Rightarrow> nat" where
  "shape1 t = (case t of [] \<Rightarrow> 0 | r # _ \<Rightarrow> length r)"

text \<open>
  Python's slice bounds: a negative bound counts from the end, and every bound is clipped
  into \<open>0..len\<close>. \<open>slice xs a b\<close> is \<^verbatim>\<open>xs[a:b]\<close>, \<open>slice_from xs a\<close> is \<^verbatim>\<open>xs[a:]\<close>;
  \<^verbatim>\<open>xs[:-1]\<close> is \<open>butlast xs\<close> and \<^verbatim>\<open>xs[1:]\<close> is \<open>drop 1 xs\<close>.
\<close>

definition clamp_index :: "nat \<Rightarrow> int \<Rightarrow> nat" where
  "clamp_index n i = (if i < 0 then nat (int n + i) else min n (nat i))"

definition slice :: "'a list \<Rightarrow> int \<Rightarrow> int \<Rightarrow> 'a list" where
  "slice xs a b =
     (let lo = clamp_index (length xs) a; hi = clamp_index (length xs) b
      in take (hi - lo) (drop lo xs))"

definition slice_from :: "'a list \<Rightarrow> int \<Rightarrow> 'a list" where
  "slice_from xs a = drop (clamp_index (length xs) a) xs"

text \<open>\<^verbatim>\<open>t[ix]\<close> for \<open>ix\<close> drawn from \<^verbatim>\<open>range(n)\<close>: IndexError past the end.\<close>

definition item :: "'a list \<Rightarrow> nat \<Rightarrow> error + 'a" where
  "item xs ix = (if ix < length xs then Inr (xs ! ix) else Inl IndexError)"

text \<open>\<^verbatim>\<open>rs[-1] = v\<close>: IndexError on an empty tensor.\<close>

definition set_last :: "'a list \<Rightarrow> 'a \<Rightarrow> error + 'a list" where
  "set_last rs v = (if rs = [] then Inl IndexError else Inr (rs[length rs - 1 := v]))"

text \<open>A comprehension or \<^verbatim>\<open>for\<close> loop whose body may raise stops at the first exception.\<close>

fun traverse :: "('a \<Rightarrow> error + 'b) \<Rightarrow> 'a list \<Rightarrow> error + 'b list" where
  "traverse f [] = Inr []"
| "traverse f (x # xs) =
     (case f x of
        Inl e \<Rightarrow> Inl e
      | Inr y \<Rightarrow> (case traverse f xs of Inl e \<Rightarrow> Inl e | Inr ys \<Rightarrow> Inr (y # ys)))"

text \<open>
  \<^verbatim>\<open>scores.mean()\<close> and \<^verbatim>\<open>scores.std()\<close> of the raw scores: torch's mean and its sample
  standard deviation (Bessel's correction). The mean of an empty tensor and the std of a
  tensor of fewer than two entries are NaN (zero divided by zero), never \<^verbatim>\<open>None\<close>.
\<close>

definition tensor_mean :: "real list \<Rightarrow> tfloat" where
  "tensor_mean xs = (if xs = [] then NaN else Num (sum_list xs / real (length xs)))"

definition tensor_std :: "real list \<Rightarrow> tfloat" where
  "tensor_std xs =
     (if length xs \<le> 1 then NaN
      else Num (sqrt (sum_list (map (\<lambda>x. (x - sum_list xs / real (length xs))\<^sup>2) xs)
                  / (real (length xs) - 1))))"

text \<open>
  \<^verbatim>\<open>x / d\<close> for a score \<open>x\<close> as IEEE 754 divides: NaN by NaN, zero by an infinity, a signed
  infinity or (for zero by zero) NaN by zero. The sign of a zero divisor is not modelled;
  a standard deviation is never a negative zero.
\<close>

definition fdiv :: "real \<Rightarrow> tfloat \<Rightarrow> tfloat" where
  "fdiv x d =
     (case d of
        NaN \<Rightarrow> NaN
      | PosInf \<Rightarrow> Num 0
      | NegInf \<Rightarrow> Num 0
      | Num y \<Rightarrow>
          if y = 0 then (if x = 0 then NaN else if 0 < x then PosInf else NegInf)
          else Num (x / y))"

text \<open>
  \<^verbatim>\<open>torch.clip(scores, -c, c)\<close>, elementwise \<open>min (max x lo) hi\<close>; NaN stays NaN, an infinity
  is clamped like any number beyond the bounds.
\<close>

definition clamp :: "real \<Rightarrow> real \<Rightarrow> tfloat \<Rightarrow> tfloat" where
  "clamp lo hi x =
     (case x of
        NaN \<Rightarrow> NaN
      | PosInf \<Rightarrow> Num hi
      | NegInf \<Rightarrow> Num (min lo hi)
      | Num v \<Rightarrow> Num (min (max v lo) hi))"

definition clip :: "tfloat list \<Rightarrow> real \<Rightarrow> real \<Rightarrow> tfloat list" where
  "clip xs lo hi = map (clamp lo hi) xs"


section \<open>Log-probabilities of the next token\<close>

text \<open>
  Modelled from the spec: \<^verbatim>\<open>logprobs_from_logits\<close> of \<^verbatim>\<open>trlx.utils.modeling\<close> is not among
  the sources. By the specification it yields, per position, the log-probability of the
  label token under the distribution the logits give (log-softmax, read at the label), and
  a mismatch of tensor lengths between logits and token sequences is fatal.
\<close>

definition log_softmax :: "real list \<Rightarrow> real list" where
  "log_softmax z = map (\<lambda>x. x - ln (sum_list (map exp z))) z"

definition token_logprob :: "real list \<Rightarrow> nat \<Rightarrow> error + real" where
  "token_logprob z v = item (log_softmax z) v"

definition logprobs_row :: "real list list \<Rightarrow> nat list \<Rightarrow> error + real list" where
  "logprobs_row zs ls =
     (if length zs \<noteq> length ls then Inl ShapeError
      else traverse (\<lambda>(z, v). token_logprob z v) (zip zs ls))"

definition logprobs_from_logits :: "real list list list \<Rightarrow> nat list list \<Rightarrow> error + real list list" where
  "logprobs_from_logits logits labels =
     (if length logits \<noteq> length labels then Inl ShapeError
      else traverse (\<lambda>(zs, ls). logprobs_row zs ls) (zip logits labels))"

section \<open>Data model\<close>

text \<open>\<^verbatim>\<open>PromptBatch\<close>: what the prompt loader yields.\<close>

record prompt_batch =
  input_ids :: "nat list list"
  attention_mask :: "int list list"

text \<open>\<^verbatim>\<open>PPORLElement\<close>, with the keyword arguments of lines 171-177 and 316-322.\<close>

record ppo_rl_element =
  query_tensor :: "nat list"
  response_tensor :: "nat list"
  logprobs :: "real list"
  values_t :: "real list"
  rewards :: "tfloat list"

text \<open>
  \<^verbatim>\<open>RunningMoments\<close> (of \<^verbatim>\<open>trlx.utils.modeling\<close>, not among the sources): the orchestrator
  reads its \<^verbatim>\<open>mean\<close> and \<^verbatim>\<open>std\<close> and calls \<^verbatim>\<open>update\<close>, which is a parameter below.
\<close>

record running_moments =
  rm_count :: real
  rm_mean :: tfloat
  rm_std :: tfloat

text \<open>\<^verbatim>\<open>rl_model.config.method\<close>: the fields the orchestrators read.\<close>

record method_config =
  cfg_ref_mean :: "tfloat option"
  cfg_ref_std :: "tfloat option"
  scale_reward :: "string option"
  cliprange_reward :: "real option"

text \<open>
  The collaborators of one pass through the loop body. \<open>'i\<close> is the tuple
  \<^verbatim>\<open>get_model_inputs\<close> returns, which depends on the model topology. Generation samples,
  the loader reshuffles and the trainer changes the weights between calls, so the
  orchestrators below take a family of collaborators indexed by the number of the loop
  iteration.
  \<^item> \<open>iter_loader\<close>: the batches of the pass that \<^verbatim>\<open>iter(self.pipeline_loader)\<close> starts;
  \<^item> \<open>rl_forward\<close>: \<^verbatim>\<open>self.rl_model.model(...)\<close>, giving logits and values;
  \<^item> \<open>ref_forward\<close>: the reference logits, from \<^verbatim>\<open>forward_hydra\<close> or from
    \<^verbatim>\<open>self.ref_model\<close> (moved back to the policy's device). The second branch reads
    \<^verbatim>\<open>self.reference_device\<close>, which only the encoder-decoder class sets; the reference
    logits are taken as given, so what is proved of a decoder-only batch is about an
    orchestrator for which that branch runs or is not taken;
  \<^item> \<open>rm_update\<close>: \<^verbatim>\<open>RunningMoments.update\<close>, returning the batch's mean and std
    and the advanced moments;
  \<^item> \<open>clock_tick\<close>: what \<^verbatim>\<open>clock.tick()\<close> returns.
\<close>

record 'i collaborators =
  iter_loader :: "prompt_batch list"
  generate :: "prompt_batch \<Rightarrow> nat list list"
  batch_decode :: "nat list list \<Rightarrow> string list"
  reward_fn :: "string list \<Rightarrow> real list"
  get_model_inputs :: "nat list list \<Rightarrow> nat list list \<Rightarrow> 'i"
  rl_forward :: "'i \<Rightarrow> real list list list \<times> real list list"
  ref_forward :: "'i \<Rightarrow> real list list list"
  kl_ctl_value :: real
  rm_update :: "running_moments \<Rightarrow> real list \<Rightarrow> (tfloat \<times> tfloat) \<times> running_moments"
  clock_tick :: real

text \<open>
  The mutable state of an orchestrator: its prompt iterator (the batches left in the
  current pass), its running moments and reference statistics, and the rollout store of
  its model, which \<^verbatim>\<open>push_to_store\<close> extends.
\<close>

record orchestrator =
  pipeline_iterator :: "prompt_batch list"
  running :: running_moments
  ref_mean :: "tfloat option"
  ref_std :: "tfloat option"
  store :: "ppo_rl_element list"

text \<open>
  \<^verbatim>\<open>__init__\<close>, lines 54 and 63-65: the iterator starts a pass, the reference statistics
  are read from the configuration. The fresh \<^verbatim>\<open>RunningMoments()\<close> and the model's store
  are given.
\<close>

definition init_orchestrator ::
  "method_config \<Rightarrow> prompt_batch list \<Rightarrow> running_moments \<Rightarrow> ppo_rl_element list \<Rightarrow> orchestrator" where
  "init_orchestrator cfg loader rm st =
     \<lparr>pipeline_iterator = loader, running = rm,
      ref_mean = cfg_ref_mean cfg, ref_std = cfg_ref_std cfg, store = st\<rparr>"

section \<open>The cyclic batch source\<close>

text \<open>
  Lines 82-86, and again 227-231: \<^verbatim>\<open>next(self.pipeline_iterator)\<close>; on StopIteration the
  iterator is replaced by a fresh pass over the loader and \<^verbatim>\<open>next\<close> is called once more,
  outside the \<^verbatim>\<open>try\<close>.
\<close>

definition next_batch :: "'i collaborators \<Rightarrow> orchestrator \<Rightarrow> (error + prompt_batch) \<times> orchestrator" where
  "next_batch c s =
     (case pipeline_iterator s of
        batch # rest \<Rightarrow> (Inr batch, s\<lparr>pipeline_iterator := rest\<rparr>)
      | [] \<Rightarrow>
          (case iter_loader c of
             batch # rest \<Rightarrow> (Inr batch, s\<lparr>pipeline_iterator := rest\<rparr>)
           | [] \<Rightarrow> (Inl StopIteration, s\<lparr>pipeline_iterator := []\<rparr>)))"

section \<open>Reward shaping\<close>

text \<open>
  Lines 103-119, and again 255-271. The reference statistics are captured when
  \<^verbatim>\<open>self.ref_mean is None\<close>, the running moments are updated, the scores are divided in
  place according to \<^verbatim>\<open>scale_reward\<close> and then clipped when \<^verbatim>\<open>cliprange_reward\<close> is truthy
  (neither \<^verbatim>\<open>None\<close> nor zero). Dividing by a \<^verbatim>\<open>ref_std\<close> that is still \<^verbatim>\<open>None\<close> is a
  TypeError.
\<close>

definition capture_ref :: "orchestrator \<Rightarrow> real list \<Rightarrow> orchestrator" where
  "capture_ref s scores =
     (if ref_mean s = None
      then s\<lparr>ref_mean := Some (tensor_mean scores), ref_std := Some (tensor_std scores)\<rparr>
      else s)"

definition scale_scores :: "method_config \<Rightarrow> orchestrator \<Rightarrow> real list \<Rightarrow> error + tfloat list" where
  "scale_scores cfg s scores =
     (if scale_reward cfg = Some ''running'' then Inr (map (\<lambda>x. fdiv x (rm_std (running s))) scores)
      else if scale_reward cfg = Some ''ref'' then
        (case ref_std s of
           None \<Rightarrow> Inl TypeError
         | Some sd \<Rightarrow> Inr (map (\<lambda>x. fdiv x sd) scores))
      else Inr (map Num scores))"

definition clip_scores :: "method_config \<Rightarrow> tfloat list \<Rightarrow> tfloat list" where
  "clip_scores cfg scores =
     (case cliprange_reward cfg of
        None \<Rightarrow> scores
      | Some clip_reward \<Rightarrow> if clip_reward \<noteq> 0 then clip scores (- clip_reward) clip_reward else scores)"

definition shape_scores ::
  "'i collaborators \<Rightarrow> method_config \<Rightarrow> orchestrator \<Rightarrow> real list \<Rightarrow> (error + tfloat list) \<times> orchestrator" where
  "shape_scores c cfg s scores =
     (let s1 = capture_ref s scores;
          s2 = s1\<lparr>running := snd (rm_update c (running s1) scores)\<rparr>
      in (case scale_scores cfg s2 scores of
            Inl e \<Rightarrow> (Inl e, s2)
          | Inr scaled \<Rightarrow> (Inr (clip_scores cfg scaled), s2)))"

section \<open>Per-sample tensors of a batch\<close>

text \<open>
  Lines 145-148 and 292-295: the logits lose their last position, the tokens their first,
  for the policy and for the reference model alike.
\<close>

definition next_token_logprobs :: "real list list list \<Rightarrow> nat list list \<Rightarrow> error + real list list" where
  "next_token_logprobs logits tokens = logprobs_from_logits (map butlast logits) (map (drop 1) tokens)"

text \<open>Lines 163 and 308: \<^verbatim>\<open>-kl_ctl.value * (logprobs - ref_logprobs)\<close>, elementwise.\<close>

definition kl_rewards :: "real \<Rightarrow> real list list \<Rightarrow> real list list \<Rightarrow> tfloat list list" where
  "kl_rewards kl lps ref_lps =
     map2 (\<lambda>row ref_row. map2 (\<lambda>l r. Num (- kl * (l - r))) row ref_row) lps ref_lps"

text \<open>Line 158: \<^verbatim>\<open>ends = start + attention_mask[:, start:].sum(1)\<close>.\<close>

definition span_ends :: "int \<Rightarrow> int list list \<Rightarrow> int list" where
  "span_ends start attn = map (\<lambda>row. start + sum_list (slice_from row start)) attn"

text \<open>\<^verbatim>\<open>t[ix, start : ends[ix]]\<close> of lines 159, 160 and 166.\<close>

definition span :: "'a list list \<Rightarrow> int \<Rightarrow> int list \<Rightarrow> nat \<Rightarrow> error + 'a list" where
  "span t start ends ix =
     (case item ends ix of
        Inl e \<Rightarrow> Inl e
      | Inr end_ix \<Rightarrow> (case item t ix of Inl e \<Rightarrow> Inl e | Inr row \<Rightarrow> Inr (slice row start end_ix)))"

text \<open>Lines 166-168: the sliced rewards of sample \<open>ix\<close>, their last entry set to its score.\<close>

definition ppo_sample_rewards ::
  "tfloat list list \<Rightarrow> int \<Rightarrow> int list \<Rightarrow> tfloat list \<Rightarrow> nat \<Rightarrow> error + tfloat list" where
  "ppo_sample_rewards rws start ends scores ix =
     (case span rws start ends ix of
        Inl e \<Rightarrow> Inl e
      | Inr rs \<Rightarrow> (case item scores ix of Inl e \<Rightarrow> Inl e | Inr sc \<Rightarrow> set_last rs sc))"

text \<open>Lines 311-313: the whole row of sample \<open>ix\<close>, its last entry set to its score.\<close>

definition t5_sample_rewards :: "tfloat list list \<Rightarrow> tfloat list \<Rightarrow> nat \<Rightarrow> error + tfloat list" where
  "t5_sample_rewards rws scores ix =
     (case item rws ix of
        Inl e \<Rightarrow> Inl e
      | Inr rs \<Rightarrow> (case item scores ix of Inl e \<Rightarrow> Inl e | Inr sc \<Rightarrow> set_last rs sc))"

text \<open>Lines 170-179 and 315-324: one element per sample.\<close>

definition new_element ::
  "nat list list \<Rightarrow> nat list list \<Rightarrow> real list list \<Rightarrow> real list list \<Rightarrow> tfloat list list \<Rightarrow> nat
     \<Rightarrow> error + ppo_rl_element" where
  "new_element query_tensors response_tensors all_logprobs all_values all_rewards i =
     (case item query_tensors i of Inl e \<Rightarrow> Inl e | Inr q \<Rightarrow>
      case item response_tensors i of Inl e \<Rightarrow> Inl e | Inr r \<Rightarrow>
      case item all_logprobs i of Inl e \<Rightarrow> Inl e | Inr l \<Rightarrow>
      case item all_values i of Inl e \<Rightarrow> Inl e | Inr v \<Rightarrow>
      case item all_rewards i of Inl e \<Rightarrow> Inl e | Inr rw \<Rightarrow>
        Inr \<lparr>query_tensor = q, response_tensor = r, logprobs = l, values_t = v, rewards = rw\<rparr>)"

text \<open>
  \<^verbatim>\<open>PPOOrchestrator.make_experience\<close>, lines 122-179: from the samples, the prompts and the
  shaped scores to the new elements of the batch.
\<close>

definition ppo_elements ::
  "(nat list list \<times> int list list \<times> int list list) collaborators
     \<Rightarrow> nat list list \<Rightarrow> nat list list \<Rightarrow> nat list list \<Rightarrow> tfloat list \<Rightarrow> error + ppo_rl_element list" where
  "ppo_elements c samples query_tensors response_tensors scores =
     (case get_model_inputs c query_tensors response_tensors of
        (all_tokens, attn_mask, position_ids) \<Rightarrow>
     (case rl_forward c (all_tokens, attn_mask, position_ids) of
        (logits, vals) \<Rightarrow>
     (let ref_logits = ref_forward c (all_tokens, attn_mask, position_ids) in
      case next_token_logprobs logits all_tokens of Inl e \<Rightarrow> Inl e | Inr lps \<Rightarrow>
      case next_token_logprobs ref_logits all_tokens of Inl e \<Rightarrow> Inl e | Inr ref_lps \<Rightarrow>
      (let n = length samples;
           vals1 = map butlast vals;
           start = int (shape1 query_tensors) - 1;
           ends = span_ends start attn_mask
       in
       case traverse (span vals1 start ends) [0..<n] of Inl e \<Rightarrow> Inl e | Inr all_values \<Rightarrow>
       case traverse (span lps start ends) [0..<n] of Inl e \<Rightarrow> Inl e | Inr all_logprobs \<Rightarrow>
       (let rws = kl_rewards (kl_ctl_value c) lps ref_lps in
        case traverse (ppo_sample_rewards rws start ends scores) [0..<n] of Inl e \<Rightarrow> Inl e | Inr all_rewards \<Rightarrow>
          traverse (new_element query_tensors response_tensors all_logprobs all_values all_rewards) [0..<n])))))"

text \<open>\<^verbatim>\<open>T5PPOOrchestrator.make_experience\<close>, lines 274-324.\<close>

definition t5_elements ::
  "(nat list list \<times> int list list \<times> nat list list \<times> int list list) collaborators
     \<Rightarrow> nat list list \<Rightarrow> nat list list \<Rightarrow> nat list list \<Rightarrow> tfloat list \<Rightarrow> error + ppo_rl_element list" where
  "t5_elements c samples query_tensors response_tensors scores =
     (case get_model_inputs c query_tensors response_tensors of
        (inp_ids, attn_mask, decoder_input_ids, decoder_attention_mask) \<Rightarrow>
     (case rl_forward c (inp_ids, attn_mask, decoder_input_ids, decoder_attention_mask) of
        (logits, vals) \<Rightarrow>
     (let ref_logits = ref_forward c (inp_ids, attn_mask, decoder_input_ids, decoder_attention_mask) in
      case next_token_logprobs logits decoder_input_ids of Inl e \<Rightarrow> Inl e | Inr lps \<Rightarrow>
      case next_token_logprobs ref_logits decoder_input_ids of Inl e \<Rightarrow> Inl e | Inr ref_lps \<Rightarrow>
      (let n = length samples;
           vals1 = map butlast vals
       in
       case traverse (item vals1) [0..<n] of Inl e \<Rightarrow> Inl e | Inr all_values \<Rightarrow>
       case traverse (item lps) [0..<n] of Inl e \<Rightarrow> Inl e | Inr all_logprobs \<Rightarrow>
       (let rws = kl_rewards (kl_ctl_value c) lps ref_lps in
        case traverse (t5_sample_rewards rws scores) [0..<n] of Inl e \<Rightarrow> Inl e | Inr all_rewards \<Rightarrow>
          traverse (new_element query_tensors response_tensors all_logprobs all_values all_rewards) [0..<n])))))"

section \<open>The loop body and the loop\<close>

text \<open>Lines 81-181: one pass through the body of the decoder-only loop.\<close>

definition ppo_batch ::
  "(nat list list \<times> int list list \<times> int list list) collaborators \<Rightarrow> method_config \<Rightarrow> orchestrator
     \<Rightarrow> (error + ppo_rl_element list) \<times> orchestrator" where
  "ppo_batch c cfg s =
     (case next_batch c s of
        (Inl e, s1) \<Rightarrow> (Inl e, s1)
      | (Inr batch, s1) \<Rightarrow>
          (let samples = generate c batch;
               query_tensors = input_ids batch;
               response_tensors = map (drop (shape1 query_tensors)) samples;
               texts = batch_decode c samples;
               scores = reward_fn c texts
           in case shape_scores c cfg s1 scores of
                (Inl e, s2) \<Rightarrow> (Inl e, s2)
              | (Inr shaped, s2) \<Rightarrow> (ppo_elements c samples query_tensors response_tensors shaped, s2)))"

text \<open>Lines 226-326: one pass through the body of the encoder-decoder loop.\<close>

definition t5_batch ::
  "(nat list list \<times> int list list \<times> nat list list \<times> int list list) collaborators \<Rightarrow> method_config
     \<Rightarrow> orchestrator \<Rightarrow> (error + ppo_rl_element list) \<times> orchestrator" where
  "t5_batch c cfg s =
     (case next_batch c s of
        (Inl e, s1) \<Rightarrow> (Inl e, s1)
      | (Inr batch, s1) \<Rightarrow>
          (let samples = generate c batch;
               query_tensors = input_ids batch;
               response_tensors = samples;
               response_texts = batch_decode c samples;
               query_texts = batch_decode c query_tensors;
               texts = map2 (\<lambda>q r. q @ '' '' @ r) query_texts response_texts;
               scores = reward_fn c texts
           in case shape_scores c cfg s1 scores of
                (Inl e, s2) \<Rightarrow> (Inl e, s2)
              | (Inr shaped, s2) \<Rightarrow> (t5_elements c samples query_tensors response_tensors shaped, s2)))"

text \<open>
  The \<^verbatim>\<open>while\<close> loop of lines 80-182, and of 225-327 with the other body: \<open>i\<close> counts the
  iterations, \<open>els\<close> is \<^verbatim>\<open>ppo_rl_elements\<close>, \<open>t\<close> is \<^verbatim>\<open>exp_time\<close>, unbound until the body
  has run once. The loop need not end (a batch may be empty), so not returning is the
  value \<open>None\<close>.
\<close>

partial_function (option) experience_loop ::
  "(nat \<Rightarrow> orchestrator \<Rightarrow> (error + ppo_rl_element list) \<times> orchestrator) \<Rightarrow> (nat \<Rightarrow> real) \<Rightarrow> int \<Rightarrow> nat
     \<Rightarrow> orchestrator \<Rightarrow> ppo_rl_element list \<Rightarrow> real option
     \<Rightarrow> ((error + ppo_rl_element list \<times> real option) \<times> orchestrator) option" where
  "experience_loop body tick num_rollouts i s els t =
     (if int (length els) < num_rollouts then
        (case body i s of
           (Inl e, s') \<Rightarrow> Some (Inl e, s')
         | (Inr new, s') \<Rightarrow> experience_loop body tick num_rollouts (Suc i) s' (els @ new) (Some (tick i)))
      else Some (Inr (els, t), s))"

text \<open>
  Lines 184-191 and 329-336: after the loop \<^verbatim>\<open>exp_time\<close> is read, which raises
  UnboundLocalError when the body never ran, and the elements are pushed to the store in
  one call. Nothing is pushed when an exception leaves the method. The \<^verbatim>\<open>stats\<close> dictionary
  and its logging (for which alone \<^verbatim>\<open>iter_count\<close> is passed) have no part in what is pushed
  and are left out.
\<close>

definition finish ::
  "((error + ppo_rl_element list \<times> real option) \<times> orchestrator) option \<Rightarrow> ((error + unit) \<times> orchestrator) option" where
  "finish r =
     (case r of
        None \<Rightarrow> None
      | Some (Inl e, s) \<Rightarrow> Some (Inl e, s)
      | Some (Inr (els, None), s) \<Rightarrow> Some (Inl UnboundLocalError, s)
      | Some (Inr (els, Some exp_time), s) \<Rightarrow> Some (Inr (), s\<lparr>store := store s @ els\<rparr>))"

definition make_experience ::
  "(nat \<Rightarrow> (nat list list \<times> int list list \<times> int list list) collaborators) \<Rightarrow> method_config \<Rightarrow> int
     \<Rightarrow> orchestrator \<Rightarrow> ((error + unit) \<times> orchestrator) option" where
  "make_experience world cfg num_rollouts s =
     finish (experience_loop (\<lambda>i. ppo_batch (world i) cfg) (\<lambda>i. clock_tick (world i)) num_rollouts 0 s [] None)"

definition t5_make_experience ::
  "(nat \<Rightarrow> (nat list list \<times> int list list \<times> nat list list \<times> int list list) collaborators) \<Rightarrow> method_config
     \<Rightarrow> int \<Rightarrow> orchestrator \<Rightarrow> ((error + unit) \<times> orchestrator) option" where
  "t5_make_experience world cfg num_rollouts s =
     finish (experience_loop (\<lambda>i. t5_batch (world i) cfg) (\<lambda>i. clock_tick (world i)) num_rollouts 0 s [] None)"

section \<open>A concrete scenario\<close>

text \<open>
  The end-to-end scenario of the specification: a batch of two prompts of four tokens,
  three generated tokens each, KL coefficient \<open>0.1\<close>, scores \<open>2\<close> and \<open>- 1\<close>. The policy
  gives the two tokens of its vocabulary the same logit, the reference model spreads its
  mass over a third one as well. The stand-in for \<^verbatim>\<open>RunningMoments.update\<close> counts the scalars and
  reports a running std of \<open>2\<close>.
\<close>

definition demo_batch :: prompt_batch where
  "demo_batch = \<lparr>input_ids = [[1, 1, 1, 1], [1, 1, 1, 1]], attention_mask = [[1, 1, 1, 1], [1, 1, 1, 1]]\<rparr>"

definition demo_moments :: running_moments where
  "demo_moments = \<lparr>rm_count = 0, rm_mean = Num 0, rm_std = Num 1\<rparr>"

definition demo_update :: "running_moments \<Rightarrow> real list \<Rightarrow> (tfloat \<times> tfloat) \<times> running_moments" where
  "demo_update rm xs =
     ((tensor_mean xs, tensor_std xs), rm\<lparr>rm_count := rm_count rm + real (length xs), rm_std := Num 2\<rparr>)"

definition demo :: "(nat list list \<times> int list list \<times> int list list) collaborators" where
  "demo = \<lparr>iter_loader = [demo_batch],
     generate = (\<lambda>b. map (\<lambda>q. q @ [0, 0, 0]) (input_ids b)),
     batch_decode = (\<lambda>t. map (\<lambda>_. ''text'') t),
     reward_fn = (\<lambda>texts. [2, - 1]),
     get_model_inputs = (\<lambda>q r. (map2 (@) q r, map (map (\<lambda>_. 1)) (map2 (@) q r), [])),
     rl_forward = (\<lambda>(toks, m, p). (map (map (\<lambda>_. [0, 0])) toks, map (map (\<lambda>_. 1 / 2)) toks)),
     ref_forward = (\<lambda>(toks, m, p). map (map (\<lambda>_. [0, 0, 0])) toks),
     kl_ctl_value = 1 / 10,
     rm_update = demo_update,
     clock_tick = 1\<rparr>"

definition demo_cfg :: method_config where
  "demo_cfg = \<lparr>cfg_ref_mean = None, cfg_ref_std = None, scale_reward = None, cliprange_reward = None\<rparr>"

text \<open>An orchestrator whose current pass is used up.\<close>

definition demo_orch :: orchestrator where
  "demo_orch = init_orchestrator demo_cfg [] demo_moments []"

text \<open>
  The same batch when the second sample stops after one token: the mask of its last two
  positions is zero.
\<close>

definition demo_padded :: "(nat list list \<times> int list list \<times> int list list) collaborators" where
  "demo_padded = demo\<lparr>get_model_inputs :=
     (\<lambda>q r. (map2 (@) q r, [[1, 1, 1, 1, 1, 1, 1], [1, 1, 1, 1, 1, 0, 0]], []))\<rparr>"

text \<open>
  An encoder-decoder batch: the decoder rows start with the start token, the second row is
  padded after one generated token.
\<close>

definition demo_t5 :: "(nat list list \<times> int list list \<times> nat list list \<times> int list list) collaborators" where
  "demo_t5 = \<lparr>iter_loader = [demo_batch],
     generate = (\<lambda>b. [[0, 1, 1, 1], [0, 1, 0, 0]]),
     batch_decode = (\<lambda>t. map (\<lambda>_. ''text'') t),
     reward_fn = (\<lambda>texts. [2, - 1]),
     get_model_inputs = (\<lambda>q r. (q, map (map (\<lambda>_. 1)) q, r, [[1, 1, 1, 1], [1, 1, 0, 0]])),
     rl_forward = (\<lambda>(ids, m, dec, dm). (map (map (\<lambda>_. [0, 0])) dec, map (map (\<lambda>_. 1 / 2)) dec)),
     ref_forward = (\<lambda>(ids, m, dec, dm). map (map (\<lambda>_. [0, 0, 0])) dec),
     kl_ctl_value = 1 / 10,
     rm_update = demo_update,
     clock_tick = 1\<rparr>"

section \<open>Lists, slices and comprehensions\<close>

lemmas demo_defs = demo_def demo_cfg_def demo_orch_def demo_batch_def demo_moments_def demo_update_def
  init_orchestrator_def

lemma traverse_length: "traverse f xs = Inr ys \<Longrightarrow> length ys = length xs"
  by (induction xs arbitrary: ys) (auto split: sum.splits)

lemma traverse_nth: "traverse f xs = Inr ys \<Longrightarrow> i < length xs \<Longrightarrow> f (xs ! i) = Inr (ys ! i)"
proof (induction xs arbitrary: ys i)
  case Nil
  then show ?case by simp
next
  case (Cons x xs)
  then show ?case by (cases i) (auto split: sum.splits)
qed

lemma traverse_range: "traverse f [0..<n] = Inr ys \<Longrightarrow> i < n \<Longrightarrow> f i = Inr (ys ! i)"
  using traverse_nth [of f "[0..<n]" ys i] by simp

lemma traverse_range_length: "traverse f [0..<n] = Inr ys \<Longrightarrow> length ys = n"
  using traverse_length [of f "[0..<n]" ys] by simp

lemma length_slice:
  "length (slice xs a b) = clamp_index (length xs) b - clamp_index (length xs) a"
  by (auto simp: slice_def Let_def clamp_index_def)

lemma slice_nth:
  "j < length (slice xs a b) \<Longrightarrow> slice xs a b ! j = xs ! (clamp_index (length xs) a + j)"
  by (auto simp: slice_def Let_def)

lemma take_length_take: "take (length (take n ys)) ys = take n ys"
  by (cases "n \<le> length ys") (simp_all add: min_def)

lemma slice_take_drop:
  "slice xs a b = take (length (slice xs a b)) (drop (clamp_index (length xs) a) xs)"
  unfolding slice_def Let_def by (rule take_length_take [symmetric])

lemma sum_list_mask_bounds:
  "set xs \<subseteq> {0, 1::int} \<Longrightarrow> 0 \<le> sum_list xs \<and> sum_list xs \<le> int (length xs)"
  by (induction xs) auto

lemma drop_pred_sum:
  assumes "1 \<le> p" and "p \<le> length (xs::int list)"
  shows "sum_list (drop (p - 1) xs) = xs ! (p - 1) + sum_list (drop p xs)"
proof -
  have "drop (p - 1) xs = xs ! (p - 1) # drop (Suc (p - 1)) xs"
    using assms by (intro Cons_nth_drop_Suc [symmetric]) simp
  with assms show ?thesis by simp
qed

section \<open>The response span of a decoder-only sample\<close>

lemma span_length:
  assumes p: "1 \<le> p" "p \<le> length attn_row" and len: "length row = length attn_row - 1"
    and m: "set attn_row \<subseteq> {0, 1}"
  shows "int (length (slice row (int p - 1) (int p - 1 + sum_list (slice_from attn_row (int p - 1)))))
         = min (sum_list (drop (p - 1) attn_row)) (int (length attn_row) - int p)"
proof -
  have sf: "slice_from attn_row (int p - 1) = drop (p - 1) attn_row"
    using p by (simp add: slice_from_def clamp_index_def nat_diff_distrib')
  have "set (drop (p - 1) attn_row) \<subseteq> {0, 1}"
    using m set_drop_subset by fastforce
  then have b: "0 \<le> sum_list (drop (p - 1) attn_row)"
    using sum_list_mask_bounds by blast
  define m where "m = sum_list (drop (p - 1) attn_row)"
  define n where "n = length attn_row"
  have "int (clamp_index (n - 1) (int p - 1 + m) - clamp_index (n - 1) (int p - 1)) = min m (int n - int p)"
    using p b unfolding m_def [symmetric] n_def [symmetric] clamp_index_def
    by (simp split: if_splits)
  then show ?thesis
    unfolding sf length_slice len m_def n_def .
qed

text \<open>
  C2, as the code has it. For a decoder-only sample with a prompt of \<open>p \<ge> 1\<close> tokens, a
  mask of zeros and ones over the \<open>L\<close> tokens of the row and tensors of \<open>L - 1\<close> positions,
  the slice \<^verbatim>\<open>t[ix, start : ends[ix]]\<close> starts at position \<open>p - 1\<close>, and its length is the
  number of ones of the mask from position \<open>p - 1\<close> on, cut off at the \<open>L - p\<close> positions the
  row has left. The mask entry of the last prompt token is counted with the \<open>k\<close> entries of
  the generated tokens, so the length is \<open>k\<close> only when that entry is zero or when no
  generated token is padding.
\<close>

theorem span_length_decoder_only:
  assumes "1 \<le> p" and "ix < length attn" and "ix < length t"
    and "p \<le> length (attn ! ix)" and "set (attn ! ix) \<subseteq> {0, 1}"
    and "length (t ! ix) = length (attn ! ix) - 1"
  shows "\<exists>sp. span t (int p - 1) (span_ends (int p - 1) attn) ix = Inr sp
            \<and> sp = take (length sp) (drop (p - 1) (t ! ix))
            \<and> int (length sp) =
                min (attn ! ix ! (p - 1) + sum_list (drop p (attn ! ix))) (int (length (attn ! ix)) - int p)"
proof -
  let ?e = "int p - 1 + sum_list (slice_from (attn ! ix) (int p - 1))"
  have sp: "span t (int p - 1) (span_ends (int p - 1) attn) ix = Inr (slice (t ! ix) (int p - 1) ?e)"
    using assms(2,3) by (simp add: span_def span_ends_def item_def)
  have lo: "clamp_index (length (t ! ix)) (int p - 1) = p - 1"
    using assms(1,4,6) by (simp add: clamp_index_def nat_diff_distrib')
  have shape: "slice (t ! ix) (int p - 1) ?e = take (length (slice (t ! ix) (int p - 1) ?e)) (drop (p - 1) (t ! ix))"
    using slice_take_drop [of "t ! ix" "int p - 1" ?e] unfolding lo .
  have len: "int (length (slice (t ! ix) (int p - 1) ?e)) =
      min (attn ! ix ! (p - 1) + sum_list (drop p (attn ! ix))) (int (length (attn ! ix)) - int p)"
    using span_length [OF assms(1,4,6,5)] drop_pred_sum [OF assms(1,4)] by simp
  show ?thesis using sp shape len by simp
qed

text \<open>
  A prompt of two tokens, three generated tokens of which the last two are padding
  (\<open>k = 1\<close>): the span holds two positions.
\<close>

theorem span_length_decoder_only_witness:
  "span [[10, 20, 30, 40 :: real]] (int 2 - 1) (span_ends (int 2 - 1) [[1, 1, 1, 0, 0]]) 0 = Inr [20, 30]
     \<and> int (length [20, 30 :: real])
         = min ([1, 1, 1, 0, 0] ! (2 - 1) + sum_list (drop 2 [1, 1, 1, 0, 0])) (int 5 - int 2)"
  using span_length_decoder_only [of 2 0 "[[1, 1, 1, 0, 0]]" "[[10, 20, 30, 40 :: real]]"]
  by (simp add: span_def span_ends_def item_def slice_def slice_from_def clamp_index_def)

theorem span_length_not_valid_count:
  "span [[10, 20, 30, 40 :: real]] 1 (span_ends 1 [[1, 1, 1, 0, 0]]) 0 = Inr [20, 30]
     \<and> length [20, 30 :: real] \<noteq> nat (sum_list (drop 2 [1, 1, 1, 0, 0 :: int]))"
  by (simp add: span_def span_ends_def item_def slice_def slice_from_def clamp_index_def)

section \<open>The cyclic batch source\<close>

lemma next_batch_empty:
  "pipeline_iterator s = [] \<Longrightarrow> iter_loader c = [] \<Longrightarrow> next_batch c s = (Inl StopIteration, s)"
  by (simp add: next_batch_def)

lemma next_batch_frame:
  "next_batch c s = (r, s') \<Longrightarrow>
     ref_mean s' = ref_mean s \<and> ref_std s' = ref_std s \<and> store s' = store s \<and> running s' = running s"
  by (auto simp: next_batch_def split: list.splits)

text \<open>
  C7, as the code has it. Provided a fresh pass over the loader yields at least one batch,
  obtaining the next prompt batch does not raise: while the current pass has a batch left
  that batch is returned, and on exhaustion a fresh pass is started, its first batch is
  returned and the rest of that pass is what the iterator holds.
\<close>

theorem next_batch_restart:
  assumes "iter_loader c \<noteq> []"
  shows "\<exists>batch s'. next_batch c s = (Inr batch, s')
           \<and> (pipeline_iterator s \<noteq> [] \<longrightarrow>
                 batch = hd (pipeline_iterator s) \<and> s' = s\<lparr>pipeline_iterator := tl (pipeline_iterator s)\<rparr>)
           \<and> (pipeline_iterator s = [] \<longrightarrow>
                 batch = hd (iter_loader c) \<and> s' = s\<lparr>pipeline_iterator := tl (iter_loader c)\<rparr>)"
  using assms by (auto simp: next_batch_def split: list.splits)

theorem next_batch_restart_witness:
  "iter_loader demo \<noteq> [] \<and> pipeline_iterator demo_orch = []
     \<and> next_batch demo demo_orch = (Inr demo_batch, demo_orch)
     \<and> pipeline_iterator (demo_orch\<lparr>pipeline_iterator := [demo_batch]\<rparr>) \<noteq> []
     \<and> next_batch demo (demo_orch\<lparr>pipeline_iterator := [demo_batch]\<rparr>) = (Inr demo_batch, demo_orch)"
  using next_batch_restart [of demo demo_orch]
    next_batch_restart [of demo "demo_orch\<lparr>pipeline_iterator := [demo_batch]\<rparr>"]
  by (auto simp: demo_defs)

text \<open>With an empty loader, the \<^verbatim>\<open>next\<close> call after the restart raises.\<close>

theorem next_batch_raises_on_empty_loader:
  "next_batch (demo\<lparr>iter_loader := []\<rparr>) demo_orch = (Inl StopIteration, demo_orch)"
  by (simp add: next_batch_def demo_defs)

section \<open>Reward shaping\<close>







lemma running_capture_ref: "running (capture_ref s raw) = running s"
  by (simp add: capture_ref_def)



lemmas shape_defs = shape_scores_def capture_ref_def scale_scores_def clip_scores_def clip_def clamp_def
  fdiv_def



section \<open>Shapes of the log-probabilities\<close>

lemma logprobs_row_Inr:
  assumes "logprobs_row zs ls = Inr lp"
  shows "length lp = length ls" and "length zs = length ls"
    and "t < length ls \<Longrightarrow> token_logprob (zs ! t) (ls ! t) = Inr (lp ! t)"
proof -
  from assms have len: "length zs = length ls"
    and tr: "traverse (\<lambda>(z, v). token_logprob z v) (zip zs ls) = Inr lp"
    by (auto simp: logprobs_row_def split: if_splits)
  show "length zs = length ls" by (rule len)
  show "length lp = length ls" using traverse_length [OF tr] len by simp
  show "token_logprob (zs ! t) (ls ! t) = Inr (lp ! t)" if "t < length ls"
    using traverse_nth [OF tr, of t] that len by simp
qed

lemma logprobs_from_logits_Inr:
  assumes "logprobs_from_logits logits labels = Inr lps"
  shows "length lps = length labels" and "length logits = length labels"
    and "b < length labels \<Longrightarrow> logprobs_row (logits ! b) (labels ! b) = Inr (lps ! b)"
proof -
  from assms have len: "length logits = length labels"
    and tr: "traverse (\<lambda>(zs, ls). logprobs_row zs ls) (zip logits labels) = Inr lps"
    by (auto simp: logprobs_from_logits_def split: if_splits)
  show "length logits = length labels" by (rule len)
  show "length lps = length labels" using traverse_length [OF tr] len by simp
  show "logprobs_row (logits ! b) (labels ! b) = Inr (lps ! b)" if "b < length labels"
    using traverse_nth [OF tr, of b] that len by simp
qed

lemma next_token_logprobs_Inr:
  assumes "next_token_logprobs logits tokens = Inr lps"
  shows "length lps = length tokens" and "length logits = length tokens"
    and "b < length tokens \<Longrightarrow> length (lps ! b) = length (tokens ! b) - 1"
    and "b < length tokens \<Longrightarrow> t < length (lps ! b) \<Longrightarrow>
           token_logprob (logits ! b ! t) (tokens ! b ! (t + 1)) = Inr (lps ! b ! t)"
proof -
  note l = logprobs_from_logits_Inr [OF assms [unfolded next_token_logprobs_def]]
  show 1: "length lps = length tokens" using l(1) by simp
  show 2: "length logits = length tokens" using l(2) by simp
  {
    assume b: "b < length tokens"
    have row: "logprobs_row (butlast (logits ! b)) (drop 1 (tokens ! b)) = Inr (lps ! b)"
      using l(3) [of b] b 2 by simp
    note r = logprobs_row_Inr [OF row]
    show 3: "length (lps ! b) = length (tokens ! b) - 1" using r(1) by simp
    {
      assume t: "t < length (lps ! b)"
      have "token_logprob (butlast (logits ! b) ! t) (drop 1 (tokens ! b) ! t) = Inr (lps ! b ! t)"
        using r(3) [of t] t 3 by simp
      moreover have "butlast (logits ! b) ! t = logits ! b ! t"
        using t r(1,2) by (simp add: nth_butlast)
      moreover have "drop 1 (tokens ! b) ! t = tokens ! b ! (t + 1)"
        using t 3 by simp
      ultimately show "token_logprob (logits ! b ! t) (tokens ! b ! (t + 1)) = Inr (lps ! b ! t)"
        by simp
    }
  }
qed

lemma kl_rewards_row:
  assumes "length lps = length ref_lps" and "b < length lps"
  shows "kl_rewards kl lps ref_lps ! b = map2 (\<lambda>l r. Num (- kl * (l - r))) (lps ! b) (ref_lps ! b)"
  using assms by (simp add: kl_rewards_def)

lemma length_kl_rewards: "length (kl_rewards kl lps ref_lps) = min (length lps) (length ref_lps)"
  by (simp add: kl_rewards_def)

section \<open>What a successful batch has computed\<close>

lemma span_Inr:
  assumes "span t start ends ix = Inr sp"
  shows "ix < length ends \<and> ix < length t \<and> sp = slice (t ! ix) start (ends ! ix)"
  using assms by (auto simp: span_def item_def split: if_splits sum.splits)

lemma item_Inr: "item xs ix = Inr x \<Longrightarrow> ix < length xs \<and> x = xs ! ix"
  by (auto simp: item_def split: if_splits)

lemma set_last_Inr:
  "set_last rs v = Inr rw \<Longrightarrow> rs \<noteq> [] \<and> rw = rs[length rs - 1 := v]"
  by (auto simp: set_last_def split: if_splits)

lemma ppo_sample_rewards_Inr:
  assumes "ppo_sample_rewards rws start ends scores ix = Inr rw"
  shows "ix < length ends \<and> ix < length rws \<and> ix < length scores
    \<and> slice (rws ! ix) start (ends ! ix) \<noteq> []
    \<and> rw = (slice (rws ! ix) start (ends ! ix))[length (slice (rws ! ix) start (ends ! ix)) - 1 := scores ! ix]"
  using assms
  by (auto simp: ppo_sample_rewards_def split: sum.splits dest!: span_Inr item_Inr set_last_Inr)

lemma t5_sample_rewards_Inr:
  assumes "t5_sample_rewards rws scores ix = Inr rw"
  shows "ix < length rws \<and> ix < length scores \<and> rws ! ix \<noteq> []
    \<and> rw = (rws ! ix)[length (rws ! ix) - 1 := scores ! ix]"
  using assms
  by (auto simp: t5_sample_rewards_def split: sum.splits dest!: item_Inr set_last_Inr)

lemma new_element_Inr:
  assumes "new_element qs rs ls vs rws i = Inr e"
  shows "e = \<lparr>query_tensor = qs ! i, response_tensor = rs ! i, logprobs = ls ! i, values_t = vs ! i, rewards = rws ! i\<rparr>"
    and "i < length qs" and "i < length rs"
  using assms by (auto simp: new_element_def split: sum.splits dest!: item_Inr)

lemma ppo_elements_Inr:
  assumes el: "ppo_elements c samples qs rs scores = Inr els"
    and inp: "get_model_inputs c qs rs = (all_tokens, attn, pos)"
    and fw: "rl_forward c (all_tokens, attn, pos) = (logits, vals)"
  obtains lps ref_lps where
    "next_token_logprobs logits all_tokens = Inr lps"
    "next_token_logprobs (ref_forward c (all_tokens, attn, pos)) all_tokens = Inr ref_lps"
    "length els = length samples"
    "\<And>ix. ix < length samples \<Longrightarrow>
       span (map butlast vals) (int (shape1 qs) - 1) (span_ends (int (shape1 qs) - 1) attn) ix
         = Inr (values_t (els ! ix))"
    "\<And>ix. ix < length samples \<Longrightarrow>
       span lps (int (shape1 qs) - 1) (span_ends (int (shape1 qs) - 1) attn) ix = Inr (logprobs (els ! ix))"
    "\<And>ix. ix < length samples \<Longrightarrow>
       ppo_sample_rewards (kl_rewards (kl_ctl_value c) lps ref_lps) (int (shape1 qs) - 1)
         (span_ends (int (shape1 qs) - 1) attn) scores ix = Inr (rewards (els ! ix))"
    "\<And>ix. ix < length samples \<Longrightarrow>
       ix < length qs \<and> ix < length rs \<and> query_tensor (els ! ix) = qs ! ix \<and> response_tensor (els ! ix) = rs ! ix"
proof -
  let ?st = "int (shape1 qs) - 1"
  let ?en = "span_ends ?st attn"
  let ?n = "length samples"
  from el inp fw obtain lps ref_lps all_values all_logprobs all_rewards where
    a: "next_token_logprobs logits all_tokens = Inr lps"
    and b: "next_token_logprobs (ref_forward c (all_tokens, attn, pos)) all_tokens = Inr ref_lps"
    and v: "traverse (span (map butlast vals) ?st ?en) [0..<?n] = Inr all_values"
    and l: "traverse (span lps ?st ?en) [0..<?n] = Inr all_logprobs"
    and r: "traverse (ppo_sample_rewards (kl_rewards (kl_ctl_value c) lps ref_lps) ?st ?en scores) [0..<?n]
              = Inr all_rewards"
    and e: "traverse (new_element qs rs all_logprobs all_values all_rewards) [0..<?n] = Inr els"
    by (auto simp: ppo_elements_def Let_def split: sum.splits)
  have len: "length els = ?n" by (rule traverse_range_length [OF e])
  have el_ix: "new_element qs rs all_logprobs all_values all_rewards ix = Inr (els ! ix)" if "ix < ?n" for ix
    using traverse_range [OF e that] .
  show thesis
  proof (rule that [OF a b len])
    fix ix assume ix: "ix < ?n"
    note ne = new_element_Inr [OF el_ix [OF ix]]
    show "span (map butlast vals) ?st ?en ix = Inr (values_t (els ! ix))"
      using traverse_range [OF v ix] ne(1) by simp
    show "span lps ?st ?en ix = Inr (logprobs (els ! ix))"
      using traverse_range [OF l ix] ne(1) by simp
    show "ppo_sample_rewards (kl_rewards (kl_ctl_value c) lps ref_lps) ?st ?en scores ix = Inr (rewards (els ! ix))"
      using traverse_range [OF r ix] ne(1) by simp
    show "ix < length qs \<and> ix < length rs \<and> query_tensor (els ! ix) = qs ! ix \<and> response_tensor (els ! ix) = rs ! ix"
      using ne by simp
  qed
qed

lemma t5_elements_Inr:
  assumes el: "t5_elements c samples qs rs scores = Inr els"
    and inp: "get_model_inputs c qs rs = (inp_ids, attn, dec_ids, dec_attn)"
    and fw: "rl_forward c (inp_ids, attn, dec_ids, dec_attn) = (logits, vals)"
  obtains lps ref_lps where
    "next_token_logprobs logits dec_ids = Inr lps"
    "next_token_logprobs (ref_forward c (inp_ids, attn, dec_ids, dec_attn)) dec_ids = Inr ref_lps"
    "length els = length samples"
    "\<And>ix. ix < length samples \<Longrightarrow> item (map butlast vals) ix = Inr (values_t (els ! ix))"
    "\<And>ix. ix < length samples \<Longrightarrow> item lps ix = Inr (logprobs (els ! ix))"
    "\<And>ix. ix < length samples \<Longrightarrow>
       t5_sample_rewards (kl_rewards (kl_ctl_value c) lps ref_lps) scores ix = Inr (rewards (els ! ix))"
    "\<And>ix. ix < length samples \<Longrightarrow>
       ix < length qs \<and> ix < length rs \<and> query_tensor (els ! ix) = qs ! ix \<and> response_tensor (els ! ix) = rs ! ix"
proof -
  let ?n = "length samples"
  from el inp fw obtain lps ref_lps all_values all_logprobs all_rewards where
    a: "next_token_logprobs logits dec_ids = Inr lps"
    and b: "next_token_logprobs (ref_forward c (inp_ids, attn, dec_ids, dec_attn)) dec_ids = Inr ref_lps"
    and v: "traverse (item (map butlast vals)) [0..<?n] = Inr all_values"
    and l: "traverse (item lps) [0..<?n] = Inr all_logprobs"
    and r: "traverse (t5_sample_rewards (kl_rewards (kl_ctl_value c) lps ref_lps) scores) [0..<?n]
              = Inr all_rewards"
    and e: "traverse (new_element qs rs all_logprobs all_values all_rewards) [0..<?n] = Inr els"
    by (auto simp: t5_elements_def Let_def split: sum.splits)
  have len: "length els = ?n" by (rule traverse_range_length [OF e])
  have el_ix: "new_element qs rs all_logprobs all_values all_rewards ix = Inr (els ! ix)" if "ix < ?n" for ix
    using traverse_range [OF e that] .
  show thesis
  proof (rule that [OF a b len])
    fix ix assume ix: "ix < ?n"
    note ne = new_element_Inr [OF el_ix [OF ix]]
    show "item (map butlast vals) ix = Inr (values_t (els ! ix))"
      using traverse_range [OF v ix] ne(1) by simp
    show "item lps ix = Inr (logprobs (els ! ix))"
      using traverse_range [OF l ix] ne(1) by simp
    show "t5_sample_rewards (kl_rewards (kl_ctl_value c) lps ref_lps) scores ix = Inr (rewards (els ! ix))"
      using traverse_range [OF r ix] ne(1) by simp
    show "ix < length qs \<and> ix < length rs \<and> query_tensor (els ! ix) = qs ! ix \<and> response_tensor (els ! ix) = rs ! ix"
      using ne by simp
  qed
qed


lemmas elements_defs = ppo_elements_def t5_elements_def next_token_logprobs_def logprobs_from_logits_def
  logprobs_row_def token_logprob_def item_def log_softmax_def span_ends_def slice_from_def clamp_index_def
  span_def slice_def kl_rewards_def ppo_sample_rewards_def t5_sample_rewards_def set_last_def
  new_element_def shape1_def


lemma kl_row_length:
  assumes a: "next_token_logprobs logits tokens = Inr lps"
    and b: "next_token_logprobs ref_logits tokens = Inr ref_lps"
    and ix: "ix < length tokens"
  shows "kl_rewards kl lps ref_lps ! ix = map2 (\<lambda>l r. Num (- kl * (l - r))) (lps ! ix) (ref_lps ! ix)"
    and "length (kl_rewards kl lps ref_lps ! ix) = length (tokens ! ix) - 1"
proof -
  note la = next_token_logprobs_Inr [OF a] and lb = next_token_logprobs_Inr [OF b]
  show 1: "kl_rewards kl lps ref_lps ! ix = map2 (\<lambda>l r. Num (- kl * (l - r))) (lps ! ix) (ref_lps ! ix)"
    using kl_rewards_row [of lps ref_lps ix kl] la(1) lb(1) ix by simp
  show "length (kl_rewards kl lps ref_lps ! ix) = length (tokens ! ix) - 1"
    unfolding 1 using la(3) [OF ix] lb(3) [OF ix] by simp
qed

lemma rewards_per_element:
  "(ppo_elements c samples qs rs scores = Inr els \<and> get_model_inputs c qs rs = (all_tokens, attn, pos)
      \<and> rl_forward c (all_tokens, attn, pos) = (logits, vals) \<and> ix < length els \<longrightarrow>
      (\<exists>lps ref_lps kl_span.
         next_token_logprobs logits all_tokens = Inr lps
       \<and> next_token_logprobs (ref_forward c (all_tokens, attn, pos)) all_tokens = Inr ref_lps
       \<and> kl_span = slice (map2 (\<lambda>l r. Num (- kl_ctl_value c * (l - r))) (lps ! ix) (ref_lps ! ix))
                      (int (shape1 qs) - 1) (span_ends (int (shape1 qs) - 1) attn ! ix)
       \<and> kl_span \<noteq> []
       \<and> rewards (els ! ix) = kl_span[length kl_span - 1 := scores ! ix]))
   \<and> (t5_elements c5 samples5 qs5 rs5 scores5 = Inr els5
      \<and> get_model_inputs c5 qs5 rs5 = (inp_ids, enc_attn, dec_ids, dec_attn)
      \<and> rl_forward c5 (inp_ids, enc_attn, dec_ids, dec_attn) = (logits5, vals5) \<and> ix5 < length els5 \<longrightarrow>
      (\<exists>lps ref_lps kl_row.
         next_token_logprobs logits5 dec_ids = Inr lps
       \<and> next_token_logprobs (ref_forward c5 (inp_ids, enc_attn, dec_ids, dec_attn)) dec_ids = Inr ref_lps
       \<and> kl_row = map2 (\<lambda>l r. Num (- kl_ctl_value c5 * (l - r))) (lps ! ix5) (ref_lps ! ix5)
       \<and> length kl_row = length (dec_ids ! ix5) - 1
       \<and> kl_row \<noteq> []
       \<and> rewards (els5 ! ix5) = kl_row[length kl_row - 1 := scores5 ! ix5]))"
proof (intro conjI impI; elim conjE)
  assume el: "ppo_elements c samples qs rs scores = Inr els"
    and inp: "get_model_inputs c qs rs = (all_tokens, attn, pos)"
    and fw: "rl_forward c (all_tokens, attn, pos) = (logits, vals)" and ix: "ix < length els"
  from ppo_elements_Inr [OF el inp fw] obtain lps ref_lps where
    a: "next_token_logprobs logits all_tokens = Inr lps"
    and b: "next_token_logprobs (ref_forward c (all_tokens, attn, pos)) all_tokens = Inr ref_lps"
    and len: "length els = length samples"
    and rw: "\<And>ix. ix < length samples \<Longrightarrow>
       ppo_sample_rewards (kl_rewards (kl_ctl_value c) lps ref_lps) (int (shape1 qs) - 1)
         (span_ends (int (shape1 qs) - 1) attn) scores ix = Inr (rewards (els ! ix))"
    by metis
  have ix': "ix < length samples" using ix len by simp
  note r = ppo_sample_rewards_Inr [OF rw [OF ix']]
  have "ix < length all_tokens"
    using r next_token_logprobs_Inr(1) [OF a] next_token_logprobs_Inr(1) [OF b]
    by (simp add: length_kl_rewards)
  note k = kl_row_length [OF a b this, of "kl_ctl_value c"]
  show "\<exists>lps ref_lps kl_span.
         next_token_logprobs logits all_tokens = Inr lps
       \<and> next_token_logprobs (ref_forward c (all_tokens, attn, pos)) all_tokens = Inr ref_lps
       \<and> kl_span = slice (map2 (\<lambda>l r. Num (- kl_ctl_value c * (l - r))) (lps ! ix) (ref_lps ! ix))
                      (int (shape1 qs) - 1) (span_ends (int (shape1 qs) - 1) attn ! ix)
       \<and> kl_span \<noteq> []
       \<and> rewards (els ! ix) = kl_span[length kl_span - 1 := scores ! ix]"
    using a b r unfolding k(1) by blast
next
  assume el: "t5_elements c5 samples5 qs5 rs5 scores5 = Inr els5"
    and inp: "get_model_inputs c5 qs5 rs5 = (inp_ids, enc_attn, dec_ids, dec_attn)"
    and fw: "rl_forward c5 (inp_ids, enc_attn, dec_ids, dec_attn) = (logits5, vals5)"
    and ix: "ix5 < length els5"
  from t5_elements_Inr [OF el inp fw] obtain lps ref_lps where
    a: "next_token_logprobs logits5 dec_ids = Inr lps"
    and b: "next_token_logprobs (ref_forward c5 (inp_ids, enc_attn, dec_ids, dec_attn)) dec_ids = Inr ref_lps"
    and len: "length els5 = length samples5"
    and rw: "\<And>ix. ix < length samples5 \<Longrightarrow>
       t5_sample_rewards (kl_rewards (kl_ctl_value c5) lps ref_lps) scores5 ix = Inr (rewards (els5 ! ix))"
    by metis
  have ix': "ix5 < length samples5" using ix len by simp
  note r = t5_sample_rewards_Inr [OF rw [OF ix']]
  have "ix5 < length dec_ids"
    using r next_token_logprobs_Inr(1) [OF a] next_token_logprobs_Inr(1) [OF b]
    by (simp add: length_kl_rewards)
  note k = kl_row_length [OF a b this, of "kl_ctl_value c5"]
  show "\<exists>lps ref_lps kl_row.
         next_token_logprobs logits5 dec_ids = Inr lps
       \<and> next_token_logprobs (ref_forward c5 (inp_ids, enc_attn, dec_ids, dec_attn)) dec_ids = Inr ref_lps
       \<and> kl_row = map2 (\<lambda>l r. Num (- kl_ctl_value c5 * (l - r))) (lps ! ix5) (ref_lps ! ix5)
       \<and> length kl_row = length (dec_ids ! ix5) - 1
       \<and> kl_row \<noteq> []
       \<and> rewards (els5 ! ix5) = kl_row[length kl_row - 1 := scores5 ! ix5]"
    using a b r k(2) unfolding k(1) by blast
qed


text \<open>
  C3. The log-probability at position \<open>t\<close>, for the policy and for the reference model, is
  that of the token at position \<open>t + 1\<close> under the logits at position \<open>t\<close>. The decoder-only
  orchestrator aligns against the \<^verbatim>\<open>all_tokens\<close> that \<^verbatim>\<open>get_model_inputs\<close> returns and
  hands over the slice of the sample's span; the encoder-decoder orchestrator aligns
  against \<^verbatim>\<open>decoder_input_ids\<close> and hands over the whole row. The encoder's \<^verbatim>\<open>input_ids\<close>
  reach the log-probabilities only through the logits.
\<close>

theorem next_token_alignment:
  "(ppo_elements c samples qs rs scores = Inr els \<and> get_model_inputs c qs rs = (all_tokens, attn, pos)
      \<and> rl_forward c (all_tokens, attn, pos) = (logits, vals) \<and> ix < length els \<longrightarrow>
      (\<exists>lps ref_lps.
         next_token_logprobs logits all_tokens = Inr lps
       \<and> next_token_logprobs (ref_forward c (all_tokens, attn, pos)) all_tokens = Inr ref_lps
       \<and> logprobs (els ! ix) = slice (lps ! ix) (int (shape1 qs) - 1) (span_ends (int (shape1 qs) - 1) attn ! ix)
       \<and> length (lps ! ix) = length (all_tokens ! ix) - 1
       \<and> length (ref_lps ! ix) = length (all_tokens ! ix) - 1
       \<and> (\<forall>t < length (all_tokens ! ix) - 1.
            token_logprob (logits ! ix ! t) (all_tokens ! ix ! (t + 1)) = Inr (lps ! ix ! t)
          \<and> token_logprob (ref_forward c (all_tokens, attn, pos) ! ix ! t) (all_tokens ! ix ! (t + 1))
              = Inr (ref_lps ! ix ! t))))
   \<and> (t5_elements c5 samples5 qs5 rs5 scores5 = Inr els5
      \<and> get_model_inputs c5 qs5 rs5 = (inp_ids, enc_attn, dec_ids, dec_attn)
      \<and> rl_forward c5 (inp_ids, enc_attn, dec_ids, dec_attn) = (logits5, vals5) \<and> ix5 < length els5 \<longrightarrow>
      (\<exists>lps ref_lps.
         next_token_logprobs logits5 dec_ids = Inr lps
       \<and> next_token_logprobs (ref_forward c5 (inp_ids, enc_attn, dec_ids, dec_attn)) dec_ids = Inr ref_lps
       \<and> logprobs (els5 ! ix5) = lps ! ix5
       \<and> length (lps ! ix5) = length (dec_ids ! ix5) - 1
       \<and> length (ref_lps ! ix5) = length (dec_ids ! ix5) - 1
       \<and> (\<forall>t < length (dec_ids ! ix5) - 1.
            token_logprob (logits5 ! ix5 ! t) (dec_ids ! ix5 ! (t + 1)) = Inr (lps ! ix5 ! t)
          \<and> token_logprob (ref_forward c5 (inp_ids, enc_attn, dec_ids, dec_attn) ! ix5 ! t) (dec_ids ! ix5 ! (t + 1))
              = Inr (ref_lps ! ix5 ! t))))"
proof (intro conjI impI; elim conjE)
  assume el: "ppo_elements c samples qs rs scores = Inr els"
    and inp: "get_model_inputs c qs rs = (all_tokens, attn, pos)"
    and fw: "rl_forward c (all_tokens, attn, pos) = (logits, vals)" and ix: "ix < length els"
  from ppo_elements_Inr [OF el inp fw] obtain lps ref_lps where
    a: "next_token_logprobs logits all_tokens = Inr lps"
    and b: "next_token_logprobs (ref_forward c (all_tokens, attn, pos)) all_tokens = Inr ref_lps"
    and len: "length els = length samples"
    and lp: "\<And>ix. ix < length samples \<Longrightarrow>
       span lps (int (shape1 qs) - 1) (span_ends (int (shape1 qs) - 1) attn) ix = Inr (logprobs (els ! ix))"
    by metis
  have ix': "ix < length samples" using ix len by simp
  note sp = span_Inr [OF lp [OF ix']]
  have it: "ix < length all_tokens"
    using sp next_token_logprobs_Inr(1) [OF a] by simp
  note la = next_token_logprobs_Inr [OF a] and lb = next_token_logprobs_Inr [OF b]
  have "token_logprob (logits ! ix ! t) (all_tokens ! ix ! (t + 1)) = Inr (lps ! ix ! t)
      \<and> token_logprob (ref_forward c (all_tokens, attn, pos) ! ix ! t) (all_tokens ! ix ! (t + 1))
          = Inr (ref_lps ! ix ! t)" if "t < length (all_tokens ! ix) - 1" for t
    using la(4) [OF it, of t] lb(4) [OF it, of t] la(3) [OF it] lb(3) [OF it] that by simp
  then show "\<exists>lps ref_lps.
         next_token_logprobs logits all_tokens = Inr lps
       \<and> next_token_logprobs (ref_forward c (all_tokens, attn, pos)) all_tokens = Inr ref_lps
       \<and> logprobs (els ! ix) = slice (lps ! ix) (int (shape1 qs) - 1) (span_ends (int (shape1 qs) - 1) attn ! ix)
       \<and> length (lps ! ix) = length (all_tokens ! ix) - 1
       \<and> length (ref_lps ! ix) = length (all_tokens ! ix) - 1
       \<and> (\<forall>t < length (all_tokens ! ix) - 1.
            token_logprob (logits ! ix ! t) (all_tokens ! ix ! (t + 1)) = Inr (lps ! ix ! t)
          \<and> token_logprob (ref_forward c (all_tokens, attn, pos) ! ix ! t) (all_tokens ! ix ! (t + 1))
              = Inr (ref_lps ! ix ! t))"
    using a b sp la(3) [OF it] lb(3) [OF it] by blast
next
  assume el: "t5_elements c5 samples5 qs5 rs5 scores5 = Inr els5"
    and inp: "get_model_inputs c5 qs5 rs5 = (inp_ids, enc_attn, dec_ids, dec_attn)"
    and fw: "rl_forward c5 (inp_ids, enc_attn, dec_ids, dec_attn) = (logits5, vals5)"
    and ix: "ix5 < length els5"
  from t5_elements_Inr [OF el inp fw] obtain lps ref_lps where
    a: "next_token_logprobs logits5 dec_ids = Inr lps"
    and b: "next_token_logprobs (ref_forward c5 (inp_ids, enc_attn, dec_ids, dec_attn)) dec_ids = Inr ref_lps"
    and len: "length els5 = length samples5"
    and lp: "\<And>ix. ix < length samples5 \<Longrightarrow> item lps ix = Inr (logprobs (els5 ! ix))"
    by metis
  have ix': "ix5 < length samples5" using ix len by simp
  note sp = item_Inr [OF lp [OF ix']]
  have it: "ix5 < length dec_ids"
    using sp next_token_logprobs_Inr(1) [OF a] by simp
  note la = next_token_logprobs_Inr [OF a] and lb = next_token_logprobs_Inr [OF b]
  have "token_logprob (logits5 ! ix5 ! t) (dec_ids ! ix5 ! (t + 1)) = Inr (lps ! ix5 ! t)
      \<and> token_logprob (ref_forward c5 (inp_ids, enc_attn, dec_ids, dec_attn) ! ix5 ! t) (dec_ids ! ix5 ! (t + 1))
          = Inr (ref_lps ! ix5 ! t)" if "t < length (dec_ids ! ix5) - 1" for t
    using la(4) [OF it, of t] lb(4) [OF it, of t] la(3) [OF it] lb(3) [OF it] that by simp
  then show "\<exists>lps ref_lps.
         next_token_logprobs logits5 dec_ids = Inr lps
       \<and> next_token_logprobs (ref_forward c5 (inp_ids, enc_attn, dec_ids, dec_attn)) dec_ids = Inr ref_lps
       \<and> logprobs (els5 ! ix5) = lps ! ix5
       \<and> length (lps ! ix5) = length (dec_ids ! ix5) - 1
       \<and> length (ref_lps ! ix5) = length (dec_ids ! ix5) - 1
       \<and> (\<forall>t < length (dec_ids ! ix5) - 1.
            token_logprob (logits5 ! ix5 ! t) (dec_ids ! ix5 ! (t + 1)) = Inr (lps ! ix5 ! t)
          \<and> token_logprob (ref_forward c5 (inp_ids, enc_attn, dec_ids, dec_attn) ! ix5 ! t) (dec_ids ! ix5 ! (t + 1))
              = Inr (ref_lps ! ix5 ! t))"
    using a b sp la(3) [OF it] lb(3) [OF it] by blast
qed

lemma lengths_per_element:
  "(ppo_elements c samples qs rs scores = Inr els \<and> get_model_inputs c qs rs = (all_tokens, attn, pos)
      \<and> rl_forward c (all_tokens, attn, pos) = (logits, vals) \<and> map length vals = map length all_tokens
      \<and> ix < length els \<longrightarrow>
        length (logprobs (els ! ix)) = length (values_t (els ! ix))
      \<and> length (values_t (els ! ix)) = length (rewards (els ! ix))
      \<and> length (rewards (els ! ix)) =
          clamp_index (length (all_tokens ! ix) - 1) (span_ends (int (shape1 qs) - 1) attn ! ix)
            - clamp_index (length (all_tokens ! ix) - 1) (int (shape1 qs) - 1))
   \<and> (t5_elements c5 samples5 qs5 rs5 scores5 = Inr els5
      \<and> get_model_inputs c5 qs5 rs5 = (inp_ids, enc_attn, dec_ids, dec_attn)
      \<and> rl_forward c5 (inp_ids, enc_attn, dec_ids, dec_attn) = (logits5, vals5)
      \<and> map length vals5 = map length dec_ids \<and> ix5 < length els5 \<longrightarrow>
        length (logprobs (els5 ! ix5)) = length (values_t (els5 ! ix5))
      \<and> length (values_t (els5 ! ix5)) = length (rewards (els5 ! ix5))
      \<and> length (rewards (els5 ! ix5)) = length (dec_ids ! ix5) - 1)"
proof (rule conjI; rule impI; elim conjE)
  assume el: "ppo_elements c samples qs rs scores = Inr els"
    and inp: "get_model_inputs c qs rs = (all_tokens, attn, pos)"
    and fw: "rl_forward c (all_tokens, attn, pos) = (logits, vals)"
    and vs: "map length vals = map length all_tokens" and ix: "ix < length els"
  let ?st = "int (shape1 qs) - 1"
  let ?en = "span_ends ?st attn"
  from ppo_elements_Inr [OF el inp fw] obtain lps ref_lps where
    a: "next_token_logprobs logits all_tokens = Inr lps"
    and b: "next_token_logprobs (ref_forward c (all_tokens, attn, pos)) all_tokens = Inr ref_lps"
    and len: "length els = length samples"
    and v: "\<And>ix. ix < length samples \<Longrightarrow> span (map butlast vals) ?st ?en ix = Inr (values_t (els ! ix))"
    and lp: "\<And>ix. ix < length samples \<Longrightarrow> span lps ?st ?en ix = Inr (logprobs (els ! ix))"
    and rw: "\<And>ix. ix < length samples \<Longrightarrow>
       ppo_sample_rewards (kl_rewards (kl_ctl_value c) lps ref_lps) ?st ?en scores ix = Inr (rewards (els ! ix))"
    by metis
  have ix': "ix < length samples" using ix len by simp
  note sv = span_Inr [OF v [OF ix']] and sl = span_Inr [OF lp [OF ix']]
    and sr = ppo_sample_rewards_Inr [OF rw [OF ix']]
  note la = next_token_logprobs_Inr [OF a]
  have it: "ix < length all_tokens" using sl la(1) by simp
  have lv: "length (vals ! ix) = length (all_tokens ! ix)"
    using vs it by (metis length_map nth_map)
  have iv: "ix < length vals" using vs it by (metis length_map)
  note k = kl_row_length [OF a b it, of "kl_ctl_value c"]
  have 1: "length (logprobs (els ! ix)) =
      clamp_index (length (all_tokens ! ix) - 1) (?en ! ix) - clamp_index (length (all_tokens ! ix) - 1) ?st"
    using sl la(3) [OF it] by (simp add: length_slice)
  have 2: "length (values_t (els ! ix)) =
      clamp_index (length (all_tokens ! ix) - 1) (?en ! ix) - clamp_index (length (all_tokens ! ix) - 1) ?st"
    using sv iv lv by (simp add: length_slice)
  have 3: "length (rewards (els ! ix)) =
      clamp_index (length (all_tokens ! ix) - 1) (?en ! ix) - clamp_index (length (all_tokens ! ix) - 1) ?st"
    using sr k(2) by (simp add: length_slice)
  show "length (logprobs (els ! ix)) = length (values_t (els ! ix))
      \<and> length (values_t (els ! ix)) = length (rewards (els ! ix))
      \<and> length (rewards (els ! ix)) =
          clamp_index (length (all_tokens ! ix) - 1) (?en ! ix) - clamp_index (length (all_tokens ! ix) - 1) ?st"
    using 1 2 3 by simp
next
  assume el: "t5_elements c5 samples5 qs5 rs5 scores5 = Inr els5"
    and inp: "get_model_inputs c5 qs5 rs5 = (inp_ids, enc_attn, dec_ids, dec_attn)"
    and fw: "rl_forward c5 (inp_ids, enc_attn, dec_ids, dec_attn) = (logits5, vals5)"
    and vs: "map length vals5 = map length dec_ids" and ix: "ix5 < length els5"
  from t5_elements_Inr [OF el inp fw] obtain lps ref_lps where
    a: "next_token_logprobs logits5 dec_ids = Inr lps"
    and b: "next_token_logprobs (ref_forward c5 (inp_ids, enc_attn, dec_ids, dec_attn)) dec_ids = Inr ref_lps"
    and len: "length els5 = length samples5"
    and v: "\<And>ix. ix < length samples5 \<Longrightarrow> item (map butlast vals5) ix = Inr (values_t (els5 ! ix))"
    and lp: "\<And>ix. ix < length samples5 \<Longrightarrow> item lps ix = Inr (logprobs (els5 ! ix))"
    and rw: "\<And>ix. ix < length samples5 \<Longrightarrow>
       t5_sample_rewards (kl_rewards (kl_ctl_value c5) lps ref_lps) scores5 ix = Inr (rewards (els5 ! ix))"
    by metis
  have ix': "ix5 < length samples5" using ix len by simp
  note sv = item_Inr [OF v [OF ix']] and sl = item_Inr [OF lp [OF ix']]
    and sr = t5_sample_rewards_Inr [OF rw [OF ix']]
  note la = next_token_logprobs_Inr [OF a]
  have it: "ix5 < length dec_ids" using sl la(1) by simp
  have lv: "length (vals5 ! ix5) = length (dec_ids ! ix5)"
    using vs it by (metis length_map nth_map)
  note k = kl_row_length [OF a b it, of "kl_ctl_value c5"]
  have 1: "length (logprobs (els5 ! ix5)) = length (dec_ids ! ix5) - 1"
    using sl la(3) [OF it] by simp
  have 2: "length (values_t (els5 ! ix5)) = length (dec_ids ! ix5) - 1"
    using sv lv by simp
  have 3: "length (rewards (els5 ! ix5)) = length (dec_ids ! ix5) - 1"
    using sr k(2) by simp
  show "length (logprobs (els5 ! ix5)) = length (values_t (els5 ! ix5))
      \<and> length (values_t (els5 ! ix5)) = length (rewards (els5 ! ix5))
      \<and> length (rewards (els5 ! ix5)) = length (dec_ids ! ix5) - 1"
    using 1 2 3 by simp
qed


lemma demo_padded_inputs:
  "get_model_inputs demo_padded [[1, 1, 1, 1], [1, 1, 1, 1]] [[0, 0, 0], [0, 0, 0]] =
     ([[1, 1, 1, 1, 0, 0, 0], [1, 1, 1, 1, 0, 0, 0]], [[1, 1, 1, 1, 1, 1, 1], [1, 1, 1, 1, 1, 0, 0]], [])"
  by (simp add: demo_padded_def demo_defs)

lemma demo_padded_forward:
  "rl_forward demo_padded
     ([[1, 1, 1, 1, 0, 0, 0], [1, 1, 1, 1, 0, 0, 0]], [[1, 1, 1, 1, 1, 1, 1], [1, 1, 1, 1, 1, 0, 0]], []) =
     ([[[0, 0], [0, 0], [0, 0], [0, 0], [0, 0], [0, 0], [0, 0]],
       [[0, 0], [0, 0], [0, 0], [0, 0], [0, 0], [0, 0], [0, 0]]],
      [[1 / 2, 1 / 2, 1 / 2, 1 / 2, 1 / 2, 1 / 2, 1 / 2], [1 / 2, 1 / 2, 1 / 2, 1 / 2, 1 / 2, 1 / 2, 1 / 2]])"
  by (simp add: demo_padded_def demo_defs)

lemma demo_t5_inputs:
  "get_model_inputs demo_t5 [[1, 1, 1, 1], [1, 1, 1, 1]] [[0, 1, 1, 1], [0, 1, 0, 0]] =
     ([[1, 1, 1, 1], [1, 1, 1, 1]], [[1, 1, 1, 1], [1, 1, 1, 1]], [[0, 1, 1, 1], [0, 1, 0, 0]],
      [[1, 1, 1, 1], [1, 1, 0, 0]])"
  by (simp add: demo_t5_def)

lemma demo_t5_forward:
  "rl_forward demo_t5
     ([[1, 1, 1, 1], [1, 1, 1, 1]], [[1, 1, 1, 1], [1, 1, 1, 1]], [[0, 1, 1, 1], [0, 1, 0, 0]],
      [[1, 1, 1, 1], [1, 1, 0, 0]]) =
     ([[[0, 0], [0, 0], [0, 0], [0, 0]], [[0, 0], [0, 0], [0, 0], [0, 0]]],
      [[1 / 2, 1 / 2, 1 / 2, 1 / 2], [1 / 2, 1 / 2, 1 / 2, 1 / 2]])"
  by (simp add: demo_t5_def)

theorem next_token_alignment_witness:
  "map_sum id (map logprobs)
     (ppo_elements demo_padded [[1, 1, 1, 1, 0, 0, 0], [1, 1, 1, 1, 0, 0, 0]] [[1, 1, 1, 1], [1, 1, 1, 1]]
        [[0, 0, 0], [0, 0, 0]] [Num 2, Num (- 1)])
     = Inr [[- ln 2, - ln 2, - ln 2], [- ln 2, - ln 2]]
   \<and> map_sum id (map logprobs)
     (t5_elements demo_t5 [[0, 1, 1, 1], [0, 1, 0, 0]] [[1, 1, 1, 1], [1, 1, 1, 1]]
        [[0, 1, 1, 1], [0, 1, 0, 0]] [Num 2, Num (- 1)])
     = Inr [[- ln 2, - ln 2, - ln 2], [- ln 2, - ln 2, - ln 2]]
   \<and> token_logprob [0, 0] 1 = Inr (- ln 2)"
proof -
  obtain els where e: "ppo_elements demo_padded [[1, 1, 1, 1, 0, 0, 0], [1, 1, 1, 1, 0, 0, 0]]
        [[1, 1, 1, 1], [1, 1, 1, 1]] [[0, 0, 0], [0, 0, 0]] [Num 2, Num (- 1)] = Inr els"
    and r: "map logprobs els = [[- ln 2, - ln 2, - ln 2], [- ln 2, - ln 2]]"
    by (simp add: elements_defs demo_padded_def demo_defs)
  obtain els5 where e5: "t5_elements demo_t5 [[0, 1, 1, 1], [0, 1, 0, 0]] [[1, 1, 1, 1], [1, 1, 1, 1]]
        [[0, 1, 1, 1], [0, 1, 0, 0]] [Num 2, Num (- 1)] = Inr els5"
    and r5: "map logprobs els5 = [[- ln 2, - ln 2, - ln 2], [- ln 2, - ln 2, - ln 2]]"
    by (simp add: elements_defs demo_t5_def demo_defs)
  have n: "1 < length els" using arg_cong [OF r, of length] by simp
  have n5: "1 < length els5" using arg_cong [OF r5, of length] by simp
  note t = next_token_alignment [THEN conjunct1, rule_format,
      OF conjI [OF e conjI [OF demo_padded_inputs conjI [OF demo_padded_forward n]]]]
  note t5 = next_token_alignment [THEN conjunct2, rule_format,
      OF conjI [OF e5 conjI [OF demo_t5_inputs conjI [OF demo_t5_forward n5]]]]
  have res: ?thesis unfolding e e5 by (simp add: r r5 token_logprob_def log_softmax_def item_def)
  show ?thesis by (insert t t5, rule res)
qed

section \<open>What a pass through the loop body does to the orchestrator\<close>

lemma capture_ref_frame:
  "store (capture_ref s raw) = store s \<and> pipeline_iterator (capture_ref s raw) = pipeline_iterator s"
  by (simp add: capture_ref_def)

lemma capture_ref_set:
  "ref_mean s = None \<Longrightarrow>
     ref_mean (capture_ref s raw) = Some (tensor_mean raw) \<and> ref_std (capture_ref s raw) = Some (tensor_std raw)"
  by (simp add: capture_ref_def)

lemma capture_ref_kept: "ref_mean s = Some m \<Longrightarrow> capture_ref s raw = s"
  by (simp add: capture_ref_def)

lemma shape_scores_state:
  "snd (shape_scores c cfg s raw) = (capture_ref s raw)\<lparr>running := snd (rm_update c (running s) raw)\<rparr>"
  by (simp add: shape_scores_def Let_def running_capture_ref split: sum.splits)

lemma shape_scores_stateD:
  "shape_scores c cfg s raw = (r, s') \<Longrightarrow>
     s' = (capture_ref s raw)\<lparr>running := snd (rm_update c (running s) raw)\<rparr>"
  using shape_scores_state [of c cfg s raw] by simp

lemma ppo_batch_state:
  "next_batch c s = (Inl e, s1) \<Longrightarrow> ppo_batch c cfg s = (Inl e, s1)"
  "next_batch c s = (Inr batch, s1) \<Longrightarrow>
     snd (ppo_batch c cfg s) =
       (capture_ref s1 (reward_fn c (batch_decode c (generate c batch))))
         \<lparr>running := snd (rm_update c (running s1) (reward_fn c (batch_decode c (generate c batch))))\<rparr>"
  by (auto simp: ppo_batch_def Let_def split: prod.splits sum.splits dest: shape_scores_stateD)

lemma t5_batch_state:
  "next_batch c s = (Inl e, s1) \<Longrightarrow> t5_batch c cfg s = (Inl e, s1)"
  "next_batch c s = (Inr batch, s1) \<Longrightarrow>
     snd (t5_batch c cfg s) =
       (capture_ref s1 (reward_fn c (map2 (\<lambda>q r. q @ '' '' @ r) (batch_decode c (input_ids batch))
            (batch_decode c (generate c batch)))))
         \<lparr>running := snd (rm_update c (running s1) (reward_fn c (map2 (\<lambda>q r. q @ '' '' @ r)
            (batch_decode c (input_ids batch)) (batch_decode c (generate c batch)))))\<rparr>"
  by (auto simp: t5_batch_def Let_def split: prod.splits sum.splits dest: shape_scores_stateD)

lemma ppo_batch_keeps_ref:
  assumes "ppo_batch c cfg s = (r, s')" and "ref_mean s = Some m"
  shows "ref_mean s' = Some m \<and> ref_std s' = ref_std s"
proof (cases "next_batch c s")
  case (Pair nb s1)
  note f = next_batch_frame [OF Pair]
  show ?thesis
  proof (cases nb)
    case (Inl e)
    then show ?thesis using ppo_batch_state(1) [of c s e s1 cfg] Pair assms f by simp
  next
    case (Inr batch)
    have "ref_mean s1 = Some m" using f assms(2) by simp
    then show ?thesis
      using ppo_batch_state(2) [of c s batch s1 cfg] Pair Inr assms f
      by (simp add: capture_ref_kept)
  qed
qed

lemma t5_batch_keeps_ref:
  assumes "t5_batch c cfg s = (r, s')" and "ref_mean s = Some m"
  shows "ref_mean s' = Some m \<and> ref_std s' = ref_std s"
proof (cases "next_batch c s")
  case (Pair nb s1)
  note f = next_batch_frame [OF Pair]
  show ?thesis
  proof (cases nb)
    case (Inl e)
    then show ?thesis using t5_batch_state(1) [of c s e s1 cfg] Pair assms f by simp
  next
    case (Inr batch)
    have "ref_mean s1 = Some m" using f assms(2) by simp
    then show ?thesis
      using t5_batch_state(2) [of c s batch s1 cfg] Pair Inr assms f
      by (simp add: capture_ref_kept)
  qed
qed

lemma ppo_batch_keeps_store: "ppo_batch c cfg s = (r, s') \<Longrightarrow> store s' = store s"
proof (cases "next_batch c s")
  case (Pair nb s1)
  assume a: "ppo_batch c cfg s = (r, s')"
  note f = next_batch_frame [OF Pair]
  show ?thesis
  proof (cases nb)
    case (Inl e)
    then show ?thesis using ppo_batch_state(1) [of c s e s1 cfg] Pair a f by simp
  next
    case (Inr batch)
    then show ?thesis
      using ppo_batch_state(2) [of c s batch s1 cfg] Pair a f
      by (simp add: capture_ref_frame)
  qed
qed

lemma t5_batch_keeps_store: "t5_batch c cfg s = (r, s') \<Longrightarrow> store s' = store s"
proof (cases "next_batch c s")
  case (Pair nb s1)
  assume a: "t5_batch c cfg s = (r, s')"
  note f = next_batch_frame [OF Pair]
  show ?thesis
  proof (cases nb)
    case (Inl e)
    then show ?thesis using t5_batch_state(1) [of c s e s1 cfg] Pair a f by simp
  next
    case (Inr batch)
    then show ?thesis
      using t5_batch_state(2) [of c s batch s1 cfg] Pair a f
      by (simp add: capture_ref_frame)
  qed
qed

section \<open>The loop\<close>

lemma loop_preserves_aux:
  assumes "experience_loop body tick n i s els t = Some y"
  shows "(\<forall>i s r s1. body i s = (r, s1) \<longrightarrow> I s \<longrightarrow> I s1) \<longrightarrow> I s \<longrightarrow> I (snd y)"
  using assms
proof (induct rule: experience_loop.raw_induct [rotated 1, consumes 1, case_names unfold])
  case (unfold loop body tick n i s els t y)
  note IH = unfold(1) and eq = unfold(2)
  show ?case
  proof (intro impI)
    assume step: "\<forall>i s r s1. body i s = (r, s1) \<longrightarrow> I s \<longrightarrow> I s1" and I0: "I s"
    show "I (snd y)"
    proof (cases "int (length els) < n")
      case False
      with eq I0 show ?thesis by auto
    next
      case True
      obtain r s1 where b: "body i s = (r, s1)" by (cases "body i s")
      have I1: "I s1" using step I0 b by blast
      show ?thesis
      proof (cases r)
        case (Inl e)
        with eq True b I1 show ?thesis by auto
      next
        case (Inr new)
        with eq True b have "loop body tick n (Suc i) s1 (els @ new) (Some (tick i)) = Some y" by simp
        from IH [OF this] step I1 show ?thesis by blast
      qed
    qed
  qed
qed

lemma loop_preserves:
  assumes "experience_loop body tick n i s els t = Some (r, s')"
    and "\<And>i s r s1. body i s = (r, s1) \<Longrightarrow> I s \<Longrightarrow> I s1" and "I s"
  shows "I s'"
  using loop_preserves_aux [OF assms(1), of I] assms(2,3) by auto


lemma loop_first_step:
  assumes run: "experience_loop body tick n i s els t = Some (r, s')"
    and lt: "int (length els) < n" and b: "body i s = (rb, sA)" and IA: "I sA"
    and step: "\<And>i s r s1. body i s = (r, s1) \<Longrightarrow> I s \<Longrightarrow> I s1"
  shows "I s'"
proof (cases rb)
  case (Inl e)
  with run lt b have "s' = sA" by (subst (asm) experience_loop.simps) simp
  with IA show ?thesis by simp
next
  case (Inr new)
  with run lt b have "experience_loop body tick n (Suc i) sA (els @ new) (Some (tick i)) = Some (r, s')"
    by (subst (asm) experience_loop.simps) simp
  from loop_preserves [of body tick n "Suc i" sA "els @ new" "Some (tick i)" r s' I, OF this step IA]
  show ?thesis .
qed

lemma loop_collects_aux:
  assumes "experience_loop body tick n i s els t = Some y"
  shows "\<forall>els' t'. fst y = Inr (els', t') \<longrightarrow>
           n \<le> int (length els')
         \<and> (int (length els) < n \<longrightarrow> t' \<noteq> None \<and> (\<exists>pre new j sj sj'. els' = pre @ new \<and> int (length pre) < n \<and> body j sj = (Inr new, sj')))
         \<and> (\<not> int (length els) < n \<longrightarrow> els' = els \<and> t' = t)"
  using assms
proof (induct rule: experience_loop.raw_induct [rotated 1, consumes 1, case_names unfold])
  case (unfold loop body tick n i s els t y)
  note IH = unfold(1) and eq = unfold(2)
  show ?case
  proof (cases "int (length els) < n")
    case False
    with eq show ?thesis by auto
  next
    case True
    obtain r s1 where b: "body i s = (r, s1)" by (cases "body i s")
    show ?thesis
    proof (cases r)
      case (Inl e)
      with eq True b show ?thesis by auto
    next
      case (Inr new)
      with eq True b have run: "loop body tick n (Suc i) s1 (els @ new) (Some (tick i)) = Some y" by simp
      note h = IH [OF run]
      show ?thesis
      proof (intro allI impI)
        fix els' t' assume y: "fst y = Inr (els', t')"
        from h y have 1: "n \<le> int (length els')"
          and 2: "int (length (els @ new)) < n \<longrightarrow>
                   t' \<noteq> None \<and> (\<exists>pre new j sj sj'. els' = pre @ new \<and> int (length pre) < n \<and> body j sj = (Inr new, sj'))"
          and 3: "\<not> int (length (els @ new)) < n \<longrightarrow> els' = els @ new \<and> t' = Some (tick i)"
          by blast+
        have "t' \<noteq> None \<and> (\<exists>pre new j sj sj'. els' = pre @ new \<and> int (length pre) < n \<and> body j sj = (Inr new, sj'))"
        proof (cases "int (length (els @ new)) < n")
          case True
          with 2 show ?thesis by blast
        next
          case False
          with 3 have "els' = els @ new" and "t' = Some (tick i)" by simp_all
          with \<open>int (length els) < n\<close> b Inr show ?thesis by blast
        qed
        with 1 True show "n \<le> int (length els')
           \<and> (int (length els) < n \<longrightarrow> t' \<noteq> None \<and> (\<exists>pre new j sj sj'. els' = pre @ new \<and> int (length pre) < n \<and> body j sj = (Inr new, sj')))
           \<and> (\<not> int (length els) < n \<longrightarrow> els' = els \<and> t' = t)" by simp
      qed
    qed
  qed
qed

lemma loop_terminates:
  assumes prog: "\<And>i s new s1. body i s = (Inr new, s1) \<Longrightarrow> new \<noteq> []"
  shows "\<exists>y. experience_loop body tick n i s els t = Some y"
proof (induction "nat (n - int (length els))" arbitrary: i s els t rule: less_induct)
  case less
  show ?case
  proof (cases "int (length els) < n")
    case False
    then show ?thesis by (subst experience_loop.simps) simp
  next
    case True
    obtain r s1 where b: "body i s = (r, s1)" by (cases "body i s")
    show ?thesis
    proof (cases r)
      case (Inl e)
      with True b show ?thesis by (subst experience_loop.simps) simp
    next
      case (Inr new)
      with prog b have "new \<noteq> []" by blast
      with True have "nat (n - int (length (els @ new))) < nat (n - int (length els))"
        by (cases new) auto
      from less [OF this, of "Suc i" s1 "Some (tick i)"] obtain y where
        "experience_loop body tick n (Suc i) s1 (els @ new) (Some (tick i)) = Some y" by blast
      with True b Inr show ?thesis by (subst experience_loop.simps) simp
    qed
  qed
qed

lemma ppo_elements_length:
  assumes "ppo_elements c samples qs rs scores = Inr els"
  shows "length els = length samples"
proof -
  obtain all_tokens attn pos where i: "get_model_inputs c qs rs = (all_tokens, attn, pos)"
    by (cases "get_model_inputs c qs rs")
  obtain logits vals where f: "rl_forward c (all_tokens, attn, pos) = (logits, vals)"
    by (cases "rl_forward c (all_tokens, attn, pos)")
  from ppo_elements_Inr [OF assms i f] show ?thesis by metis
qed

lemma t5_elements_length:
  assumes "t5_elements c samples qs rs scores = Inr els"
  shows "length els = length samples"
proof -
  obtain ids attn dec dattn where i: "get_model_inputs c qs rs = (ids, attn, dec, dattn)"
    by (cases "get_model_inputs c qs rs")
  obtain logits vals where f: "rl_forward c (ids, attn, dec, dattn) = (logits, vals)"
    by (cases "rl_forward c (ids, attn, dec, dattn)")
  from t5_elements_Inr [OF assms i f] show ?thesis by metis
qed

lemma ppo_batch_length:
  "ppo_batch c cfg s = (Inr new, s1) \<Longrightarrow> \<exists>batch. length new = length (generate c batch)"
  by (auto simp: ppo_batch_def Let_def split: prod.splits sum.splits dest: ppo_elements_length)

lemma t5_batch_length:
  "t5_batch c cfg s = (Inr new, s1) \<Longrightarrow> \<exists>batch. length new = length (generate c batch)"
  by (auto simp: t5_batch_def Let_def split: prod.splits sum.splits dest: t5_elements_length)

lemma finish_cases:
  assumes "finish r = Some (out, s')"
  shows "\<exists>r0 s0. r = Some (r0, s0) \<and> ref_mean s' = ref_mean s0 \<and> ref_std s' = ref_std s0
           \<and> (case r0 of
                 Inl e \<Rightarrow> out = Inl e \<and> s' = s0
               | Inr (els, t) \<Rightarrow> (t = None \<longrightarrow> out = Inl UnboundLocalError \<and> s' = s0)
                   \<and> (t \<noteq> None \<longrightarrow> out = Inr () \<and> s' = s0\<lparr>store := store s0 @ els\<rparr>))"
  using assms by (auto simp: finish_def split: option.splits prod.splits sum.splits)

lemma ppo_loop_keeps_ref:
  assumes "experience_loop (\<lambda>i. ppo_batch (world i) cfg) tick n i s els t = Some (r, s')"
    and "ref_mean s = Some m"
  shows "ref_mean s' = Some m \<and> ref_std s' = ref_std s"
  by (rule loop_preserves [OF assms(1), of "\<lambda>x. ref_mean x = Some m \<and> ref_std x = ref_std s"])
    (use assms(2) ppo_batch_keeps_ref in auto)

lemma t5_loop_keeps_ref:
  assumes "experience_loop (\<lambda>i. t5_batch (world i) cfg) tick n i s els t = Some (r, s')"
    and "ref_mean s = Some m"
  shows "ref_mean s' = Some m \<and> ref_std s' = ref_std s"
  by (rule loop_preserves [OF assms(1), of "\<lambda>x. ref_mean x = Some m \<and> ref_std x = ref_std s"])
    (use assms(2) t5_batch_keeps_ref in auto)

lemma ppo_loop_keeps_store:
  assumes "experience_loop (\<lambda>i. ppo_batch (world i) cfg) tick n i s els t = Some (r, s')"
  shows "store s' = store s"
  by (rule loop_preserves [OF assms(1), of "\<lambda>x. store x = store s"])
    (use ppo_batch_keeps_store in auto)

lemma t5_loop_keeps_store:
  assumes "experience_loop (\<lambda>i. t5_batch (world i) cfg) tick n i s els t = Some (r, s')"
  shows "store s' = store s"
  by (rule loop_preserves [OF assms(1), of "\<lambda>x. store x = store s"])
    (use t5_batch_keeps_store in auto)

lemma make_experience_keeps_ref:
  assumes "make_experience world cfg n s = Some (out, s')" and "ref_mean s = Some m"
  shows "ref_mean s' = Some m \<and> ref_std s' = ref_std s"
proof -
  from finish_cases [OF assms(1) [unfolded make_experience_def]] obtain r0 s0 where
    run: "experience_loop (\<lambda>i. ppo_batch (world i) cfg) (\<lambda>i. clock_tick (world i)) n 0 s [] None = Some (r0, s0)"
    and eq: "ref_mean s' = ref_mean s0" "ref_std s' = ref_std s0" by blast
  from ppo_loop_keeps_ref [OF run assms(2)] eq show ?thesis by simp
qed

lemma t5_make_experience_keeps_ref:
  assumes "t5_make_experience world cfg n s = Some (out, s')" and "ref_mean s = Some m"
  shows "ref_mean s' = Some m \<and> ref_std s' = ref_std s"
proof -
  from finish_cases [OF assms(1) [unfolded t5_make_experience_def]] obtain r0 s0 where
    run: "experience_loop (\<lambda>i. t5_batch (world i) cfg) (\<lambda>i. clock_tick (world i)) n 0 s [] None = Some (r0, s0)"
    and eq: "ref_mean s' = ref_mean s0" "ref_std s' = ref_std s0" by blast
  from t5_loop_keeps_ref [OF run assms(2)] eq show ?thesis by simp
qed

lemma make_experience_raise_keeps_store:
  assumes "make_experience world cfg n s = Some (Inl e, s')"
  shows "store s' = store s"
proof -
  from finish_cases [OF assms [unfolded make_experience_def]] obtain r0 s0 where
    run: "experience_loop (\<lambda>i. ppo_batch (world i) cfg) (\<lambda>i. clock_tick (world i)) n 0 s [] None = Some (r0, s0)"
    and c: "case r0 of Inl e' \<Rightarrow> Inl e = (Inl e' :: error + unit) \<and> s' = s0
               | Inr (els, t) \<Rightarrow> (t = None \<longrightarrow> Inl e = (Inl UnboundLocalError :: error + unit) \<and> s' = s0)
                   \<and> (t \<noteq> None \<longrightarrow> Inl e = (Inr () :: error + unit) \<and> s' = s0\<lparr>store := store s0 @ els\<rparr>)"
    by blast
  from c have "s' = s0" by (auto split: sum.splits prod.splits)
  with ppo_loop_keeps_store [OF run] show ?thesis by simp
qed

lemma t5_make_experience_raise_keeps_store:
  assumes "t5_make_experience world cfg n s = Some (Inl e, s')"
  shows "store s' = store s"
proof -
  from finish_cases [OF assms [unfolded t5_make_experience_def]] obtain r0 s0 where
    run: "experience_loop (\<lambda>i. t5_batch (world i) cfg) (\<lambda>i. clock_tick (world i)) n 0 s [] None = Some (r0, s0)"
    and c: "case r0 of Inl e' \<Rightarrow> Inl e = (Inl e' :: error + unit) \<and> s' = s0
               | Inr (els, t) \<Rightarrow> (t = None \<longrightarrow> Inl e = (Inl UnboundLocalError :: error + unit) \<and> s' = s0)
                   \<and> (t \<noteq> None \<longrightarrow> Inl e = (Inr () :: error + unit) \<and> s' = s0\<lparr>store := store s0 @ els\<rparr>)"
    by blast
  from c have "s' = s0" by (auto split: sum.splits prod.splits)
  with t5_loop_keeps_store [OF run] show ?thesis by simp
qed

lemma loop_collects:
  assumes run: "experience_loop body tick n i s [] t = Some (Inr (els, t'), s')" and n: "0 < n"
  shows "t' \<noteq> None
    \<and> (\<exists>pre new j sj sj'. els = pre @ new \<and> int (length pre) < n \<and> n \<le> int (length (pre @ new))
          \<and> body j sj = (Inr new, sj'))"
proof -
  from loop_collects_aux [OF run, rule_format, of els t'] n
  have 1: "n \<le> int (length els)"
    and 2: "t' \<noteq> None \<and> (\<exists>pre new j sj sj'. els = pre @ new \<and> int (length pre) < n \<and> body j sj = (Inr new, sj'))"
    by simp_all
  from 2 obtain pre new j sj sj' where "els = pre @ new" "int (length pre) < n" "body j sj = (Inr new, sj')"
    by blast
  with 1 2 show ?thesis by blast
qed

lemma finish_pushes:
  "finish (Some (Inr (els, Some tm), s0)) = Some (Inr (), s0\<lparr>store := store s0 @ els\<rparr>)"
  by (simp add: finish_def)

lemma finish_raises: "finish (Some (Inl e, s0)) = Some (Inl e, s0)"
  by (simp add: finish_def)

lemma loop_run_collects:
  assumes n: "0 < n" and prog: "\<And>i s new s1. body i s = (Inr new, s1) \<Longrightarrow> new \<noteq> []"
    and st: "\<And>r s'. experience_loop body tick n 0 s [] None = Some (r, s') \<Longrightarrow> store s' = store s"
  shows "\<exists>out s'. finish (experience_loop body tick n 0 s [] None) = Some (out, s')
           \<and> (out = Inr () \<longrightarrow>
                (\<exists>pre new j sj sj'. store s' = store s @ pre @ new \<and> int (length pre) < n
                   \<and> n \<le> int (length (pre @ new)) \<and> body j sj = (Inr new, sj')))"
proof -
  have "\<exists>y. experience_loop body tick n 0 s [] None = Some y"
    by (rule loop_terminates) (rule prog)
  then obtain y where "experience_loop body tick n 0 s [] None = Some y" by blast
  then obtain r0 s0 where run: "experience_loop body tick n 0 s [] None = Some (r0, s0)"
    by (cases y) simp
  show ?thesis
  proof (cases r0)
    case (Inl e)
    have "finish (experience_loop body tick n 0 s [] None) = Some (Inl e, s0)"
      unfolding run Inl by (rule finish_raises)
    then show ?thesis by simp
  next
    case (Inr p)
    obtain els t where p: "p = (els, t)" by (cases p)
    note run' = run [unfolded Inr p]
    from loop_collects [OF run' n] obtain tm pre new j sj sj' where
      t: "t = Some tm" and e: "els = pre @ new" "int (length pre) < n" "n \<le> int (length (pre @ new))"
        "body j sj = (Inr new, sj')"
      by blast
    have "finish (experience_loop body tick n 0 s [] None) = Some (Inr (), s0\<lparr>store := store s0 @ els\<rparr>)"
      unfolding run' t by (rule finish_pushes)
    moreover have "store (s0\<lparr>store := store s0 @ els\<rparr>) = store s @ pre @ new"
      using st [OF run] e(1) by simp
    ultimately show ?thesis using e(2,3,4) by blast
  qed
qed


lemmas batch_defs = ppo_batch_def t5_batch_def next_batch_def shape_defs elements_defs Let_def

section \<open>Reference statistics\<close>

text \<open>
  C4. An orchestrator is constructed with \<open>ref_mean\<close> unset and its first call draws a
  batch. Then, however that call and any later call end, the reference statistics after
  the first call are the mean and the std of the raw scores of the very first batch, and
  they are the same after the later call. When \<^verbatim>\<open>scale_reward == "ref"\<close>, the first batch
  itself is already divided by this std: the capture precedes the scaling.
\<close>

theorem ref_stats_captured_once:
  assumes unset: "cfg_ref_mean cfg = None"
    and s0: "s0 = init_orchestrator cfg loader rm st"
    and nb: "next_batch (world 0) s0 = (Inr batch, sb)"
    and sc: "scores = reward_fn (world 0) (batch_decode (world 0) (generate (world 0) batch))"
    and n: "0 < n"
    and c1: "make_experience world cfg n s0 = Some (out1, s1)"
    and c2: "make_experience world2 cfg2 n2 s1 = Some (out2, s2)"
  shows "ref_mean s1 = Some (tensor_mean scores) \<and> ref_std s1 = Some (tensor_std scores)
       \<and> ref_mean s2 = ref_mean s1 \<and> ref_std s2 = ref_std s1
       \<and> (scale_reward cfg = Some ''ref'' \<longrightarrow>
            fst (shape_scores (world 0) cfg sb scores)
              = Inr (clip_scores cfg (map (\<lambda>x. fdiv x (tensor_std scores)) scores)))"
proof -
  let ?I = "\<lambda>x. ref_mean x = Some (tensor_mean scores) \<and> ref_std x = Some (tensor_std scores)"
  have "ref_mean s0 = None" using unset s0 by (simp add: init_orchestrator_def)
  then have rb: "ref_mean sb = None" using next_batch_frame [OF nb] by simp
  obtain rA sA where b: "ppo_batch (world 0) cfg s0 = (rA, sA)"
    by (cases "ppo_batch (world 0) cfg s0")
  have IA: "?I sA"
    using ppo_batch_state(2) [OF nb, of cfg] b capture_ref_set [OF rb, of scores] sc by simp
  from finish_cases [OF c1 [unfolded make_experience_def]] obtain r sL where
    run: "experience_loop (\<lambda>i. ppo_batch (world i) cfg) (\<lambda>i. clock_tick (world i)) n 0 s0 [] None = Some (r, sL)"
    and eq: "ref_mean s1 = ref_mean sL" "ref_std s1 = ref_std sL" by blast
  have step: "?I x1" if "ppo_batch (world i) cfg x = (r', x1)" and "?I x" for i x r' x1
    using ppo_batch_keeps_ref [OF that(1), of "tensor_mean scores"] that(2) by simp
  have "?I sL"
  proof (rule loop_first_step [where I = ?I, OF run _ b IA])
    show "int (length ([] :: ppo_rl_element list)) < n" using n by simp
  qed (rule step)
  then have 1: "?I s1" using eq by simp
  then have 2: "ref_mean s2 = ref_mean s1 \<and> ref_std s2 = ref_std s1"
    using make_experience_keeps_ref [OF c2, of "tensor_mean scores"] by simp
  have 3: "fst (shape_scores (world 0) cfg sb scores)
      = Inr (clip_scores cfg (map (\<lambda>x. fdiv x (tensor_std scores)) scores))"
    if "scale_reward cfg = Some ''ref''"
    using that rb by (simp add: shape_scores_def capture_ref_def scale_scores_def Let_def)
  show ?thesis using 1 2 3 by blast
qed

text \<open>
  A first call with reference scaling on the scores \<open>2\<close> and \<open>- 1\<close>, then a second call
  whose scores are \<open>5\<close> and \<open>7\<close>.
\<close>

theorem ref_stats_captured_once_witness:
  "\<exists>s1 s2.
      make_experience (\<lambda>_. demo) (demo_cfg\<lparr>scale_reward := Some ''ref''\<rparr>) 2
        (init_orchestrator (demo_cfg\<lparr>scale_reward := Some ''ref''\<rparr>) [demo_batch] demo_moments [])
        = Some (Inr (), s1)
    \<and> make_experience (\<lambda>_. demo\<lparr>reward_fn := (\<lambda>_. [5, 7])\<rparr>) demo_cfg 1 s1 = Some (Inr (), s2)
    \<and> ref_mean s1 = Some (Num (1 / 2)) \<and> ref_std s1 = Some (tensor_std [2, - 1])
    \<and> ref_mean s2 = Some (Num (1 / 2)) \<and> ref_std s2 = Some (tensor_std [2, - 1])"
proof -
  let ?cfg = "demo_cfg\<lparr>scale_reward := Some ''ref''\<rparr>"
  let ?s0 = "init_orchestrator ?cfg [demo_batch] demo_moments []"
  let ?w2 = "\<lambda>_ :: nat. demo\<lparr>reward_fn := (\<lambda>_. [5, 7])\<rparr>"
  have unset: "cfg_ref_mean ?cfg = None" by (simp add: demo_defs)
  have nb: "next_batch ((\<lambda>_. demo) (0::nat)) ?s0 = (Inr demo_batch, ?s0\<lparr>pipeline_iterator := []\<rparr>)"
    by (simp add: next_batch_def init_orchestrator_def)
  have sc: "[2, - 1] = reward_fn ((\<lambda>_. demo) (0::nat))
      (batch_decode ((\<lambda>_. demo) (0::nat)) (generate ((\<lambda>_. demo) (0::nat)) demo_batch))"
    by (simp add: demo_def)
  have "\<exists>s1. make_experience (\<lambda>_. demo) ?cfg 2 ?s0 = Some (Inr (), s1) \<and> pipeline_iterator s1 = []
      \<and> ref_mean s1 \<noteq> None"
    unfolding make_experience_def
    apply (subst experience_loop.simps)
    apply (simp add: batch_defs demo_defs)
    apply (subst experience_loop.simps)
    apply (simp add: finish_def)
    done
  then obtain s1 where e1: "make_experience (\<lambda>_. demo) ?cfg 2 ?s0 = Some (Inr (), s1)"
    and it: "pipeline_iterator s1 = []" and rm: "ref_mean s1 \<noteq> None" by blast
  have "\<exists>s2. make_experience ?w2 demo_cfg 1 s1 = Some (Inr (), s2)"
    unfolding make_experience_def
    apply (subst experience_loop.simps)
    apply (simp add: batch_defs demo_defs it rm)
    apply (subst experience_loop.simps)
    apply (simp add: finish_def)
    done
  then obtain s2 where e2: "make_experience ?w2 demo_cfg 1 s1 = Some (Inr (), s2)" by blast
  have n: "0 < (2::int)" by simp
  note t = ref_stats_captured_once [OF unset refl nb sc n e1 e2]
  have "tensor_mean [2, - 1] = Num (1 / 2)" by (simp add: tensor_mean_def)
  with t e1 e2 show ?thesis by auto
qed

text \<open>
  C9. The capture is guarded by \<open>ref_mean\<close> alone: from an orchestrator whose \<open>ref_mean\<close>
  is set, no call of either \<^verbatim>\<open>make_experience\<close> changes \<open>ref_mean\<close> or \<open>ref_std\<close>, however
  the call ends, and whatever \<open>ref_std\<close> is.
\<close>

theorem ref_stats_frame:
  "ref_mean s = Some m \<longrightarrow>
     (make_experience world cfg n s = Some (out, s') \<longrightarrow> ref_mean s' = Some m \<and> ref_std s' = ref_std s)
   \<and> (t5_make_experience world5 cfg5 n5 s = Some (out5, s5) \<longrightarrow> ref_mean s5 = Some m \<and> ref_std s5 = ref_std s)"
  using make_experience_keeps_ref t5_make_experience_keeps_ref by blast

text \<open>Constructed with \<open>ref_mean = 0\<close> and \<open>ref_std\<close> unset: \<open>ref_std\<close> stays unset.\<close>

theorem ref_stats_frame_witness:
  "ref_mean (init_orchestrator (demo_cfg\<lparr>cfg_ref_mean := Some (Num 0)\<rparr>) [demo_batch] demo_moments []) = Some (Num 0)
   \<and> map_option (\<lambda>(out, s'). (out, ref_mean s', ref_std s'))
        (make_experience (\<lambda>_. demo) (demo_cfg\<lparr>cfg_ref_mean := Some (Num 0)\<rparr>) 2
           (init_orchestrator (demo_cfg\<lparr>cfg_ref_mean := Some (Num 0)\<rparr>) [demo_batch] demo_moments []))
       = Some (Inr (), Some (Num 0), None)
   \<and> map_option (\<lambda>(out, s'). (out, ref_mean s', ref_std s'))
        (t5_make_experience (\<lambda>_. demo_t5) (demo_cfg\<lparr>cfg_ref_mean := Some (Num 0)\<rparr>) 2
           (init_orchestrator (demo_cfg\<lparr>cfg_ref_mean := Some (Num 0)\<rparr>) [demo_batch] demo_moments []))
       = Some (Inr (), Some (Num 0), None)"
proof -
  let ?cfg = "demo_cfg\<lparr>cfg_ref_mean := Some (Num 0)\<rparr>"
  let ?s = "init_orchestrator ?cfg [demo_batch] demo_moments []"
  have m: "ref_mean ?s = Some (Num 0)" and sd: "ref_std ?s = None" by (simp_all add: demo_defs)
  have "\<exists>s'. make_experience (\<lambda>_. demo) ?cfg 2 ?s = Some (Inr (), s')"
    unfolding make_experience_def
    apply (subst experience_loop.simps)
    apply (simp add: batch_defs demo_defs)
    apply (subst experience_loop.simps)
    apply (simp add: finish_def)
    done
  then obtain s' where e: "make_experience (\<lambda>_. demo) ?cfg 2 ?s = Some (Inr (), s')" by blast
  have "\<exists>s5. t5_make_experience (\<lambda>_. demo_t5) ?cfg 2 ?s = Some (Inr (), s5)"
    unfolding t5_make_experience_def
    apply (subst experience_loop.simps)
    apply (simp add: batch_defs demo_defs demo_t5_def)
    apply (subst experience_loop.simps)
    apply (simp add: finish_def)
    done
  then obtain s5 where e5: "t5_make_experience (\<lambda>_. demo_t5) ?cfg 2 ?s = Some (Inr (), s5)" by blast
  note t = ref_stats_frame [where s = ?s and m = "Num 0" and world = "\<lambda>_. demo" and cfg = ?cfg and n = 2
      and out = "Inr ()" and s' = s' and ?world5.0 = "\<lambda>_. demo_t5" and ?cfg5.0 = ?cfg and ?n5.0 = 2
      and ?out5.0 = "Inr ()" and ?s5.0 = s5]
  show ?thesis using t m sd e e5 by simp
qed

section \<open>Exhaustion of an empty loader\<close>

text \<open>
  C10. When the iterator is exhausted and the fresh pass yields no batch, the \<^verbatim>\<open>next\<close>
  after the restart raises StopIteration and the call ends with it, the orchestrator as it
  was; and whenever a call ends with an exception, the store is as it was before the call.
\<close>

theorem empty_loader_aborts:
  "(0 < n \<and> pipeline_iterator s = [] \<and> iter_loader (world 0) = [] \<longrightarrow>
      make_experience world cfg n s = Some (Inl StopIteration, s))
   \<and> (0 < n \<and> pipeline_iterator s = [] \<and> iter_loader (world5 0) = [] \<longrightarrow>
      t5_make_experience world5 cfg n s = Some (Inl StopIteration, s))
   \<and> (make_experience world cfg n s = Some (Inl e, s') \<longrightarrow> store s' = store s)
   \<and> (t5_make_experience world5 cfg n s = Some (Inl e5, s5) \<longrightarrow> store s5 = store s)"
proof (intro conjI impI; (elim conjE)?)
  assume "0 < n" "pipeline_iterator s = []" "iter_loader (world 0) = []"
  then show "make_experience world cfg n s = Some (Inl StopIteration, s)"
    unfolding make_experience_def
    by (subst experience_loop.simps)
      (simp add: ppo_batch_state(1) [OF next_batch_empty] finish_def)
next
  assume "0 < n" "pipeline_iterator s = []" "iter_loader (world5 0) = []"
  then show "t5_make_experience world5 cfg n s = Some (Inl StopIteration, s)"
    unfolding t5_make_experience_def
    by (subst experience_loop.simps)
      (simp add: t5_batch_state(1) [OF next_batch_empty] finish_def)
next
  assume "make_experience world cfg n s = Some (Inl e, s')"
  then show "store s' = store s" by (rule make_experience_raise_keeps_store)
next
  assume "t5_make_experience world5 cfg n s = Some (Inl e5, s5)"
  then show "store s5 = store s" by (rule t5_make_experience_raise_keeps_store)
qed

theorem empty_loader_aborts_witness:
  "pipeline_iterator demo_orch = [] \<and> iter_loader (demo\<lparr>iter_loader := []\<rparr>) = []
   \<and> make_experience (\<lambda>_. demo\<lparr>iter_loader := []\<rparr>) demo_cfg 2 demo_orch = Some (Inl StopIteration, demo_orch)
   \<and> t5_make_experience (\<lambda>_. demo_t5\<lparr>iter_loader := []\<rparr>) demo_cfg 2 demo_orch
       = Some (Inl StopIteration, demo_orch)
   \<and> store demo_orch = []"
  using empty_loader_aborts [where n = 2 and s = demo_orch and world = "\<lambda>_. demo\<lparr>iter_loader := []\<rparr>"
      and ?world5.0 = "\<lambda>_. demo_t5\<lparr>iter_loader := []\<rparr>" and cfg = demo_cfg
      and e = StopIteration and s' = demo_orch and ?e5.0 = StopIteration and ?s5.0 = demo_orch]
  by (simp add: demo_defs demo_t5_def)

section \<open>The number of collected elements\<close>

text \<open>
  For a positive \<open>num_rollouts\<close> and a model that generates at least one sample per batch,
  the call returns; when it returns normally, it has pushed at least \<open>num_rollouts\<close>
  elements: fewer than \<open>num_rollouts\<close> followed by the elements of one pass through the
  loop body, so the overshoot is less than one batch.
\<close>

lemma make_experience_collects:
  assumes "0 < n" and gen: "\<And>i b. generate (world i) b \<noteq> []"
  shows "\<exists>out s'. make_experience world cfg n s = Some (out, s')
           \<and> (out = Inr () \<longrightarrow>
                (\<exists>pre new j sj sj'. store s' = store s @ pre @ new \<and> int (length pre) < n
                   \<and> n \<le> int (length (pre @ new)) \<and> ppo_batch (world j) cfg sj = (Inr new, sj')))"
  unfolding make_experience_def
proof (rule loop_run_collects [OF assms(1)])
  fix i s new s1 assume "ppo_batch (world i) cfg s = (Inr new, s1)"
  from ppo_batch_length [OF this] obtain batch where "length new = length (generate (world i) batch)"
    by blast
  with gen [of i batch] show "new \<noteq> []" by auto
next
  fix r s' assume "experience_loop (\<lambda>i. ppo_batch (world i) cfg) (\<lambda>i. clock_tick (world i)) n 0 s [] None = Some (r, s')"
  then show "store s' = store s" by (rule ppo_loop_keeps_store)
qed

lemma t5_make_experience_collects:
  assumes "0 < n" and gen: "\<And>i b. generate (world i) b \<noteq> []"
  shows "\<exists>out s'. t5_make_experience world cfg n s = Some (out, s')
           \<and> (out = Inr () \<longrightarrow>
                (\<exists>pre new j sj sj'. store s' = store s @ pre @ new \<and> int (length pre) < n
                   \<and> n \<le> int (length (pre @ new)) \<and> t5_batch (world j) cfg sj = (Inr new, sj')))"
  unfolding t5_make_experience_def
proof (rule loop_run_collects [OF assms(1)])
  fix i s new s1 assume "t5_batch (world i) cfg s = (Inr new, s1)"
  from t5_batch_length [OF this] obtain batch where "length new = length (generate (world i) batch)"
    by blast
  with gen [of i batch] show "new \<noteq> []" by auto
next
  fix r s' assume "experience_loop (\<lambda>i. t5_batch (world i) cfg) (\<lambda>i. clock_tick (world i)) n 0 s [] None = Some (r, s')"
  then show "store s' = store s" by (rule t5_loop_keeps_store)
qed

text \<open>
  C6 fails for \<open>num_rollouts = 0\<close>: the loop body never runs, \<^verbatim>\<open>exp_time\<close> is unbound when
  it is read after the loop, and the call ends with UnboundLocalError before anything is
  pushed, whatever the collaborators do.
\<close>

theorem make_experience_zero_rollouts:
  "make_experience world cfg 0 s = Some (Inl UnboundLocalError, s)
   \<and> t5_make_experience world5 cfg5 0 s5 = Some (Inl UnboundLocalError, s5)"
  unfolding make_experience_def t5_make_experience_def
  by (subst experience_loop.simps, subst experience_loop.simps) (simp add: finish_def)

section \<open>The elements a call pushes\<close>

lemma ppo_batch_Inr:
  assumes "ppo_batch c cfg s = (Inr new, s')"
  shows "\<exists>batch s1 shaped.
           next_batch c s = (Inr batch, s1)
         \<and> shape_scores c cfg s1 (reward_fn c (batch_decode c (generate c batch))) = (Inr shaped, s')
         \<and> ppo_elements c (generate c batch) (input_ids batch)
              (map (drop (shape1 (input_ids batch))) (generate c batch)) shaped = Inr new"
  using assms by (auto simp: ppo_batch_def Let_def split: prod.splits sum.splits)

lemma t5_batch_Inr:
  assumes "t5_batch c cfg s = (Inr new, s')"
  shows "\<exists>batch s1 shaped.
           next_batch c s = (Inr batch, s1)
         \<and> shape_scores c cfg s1
              (reward_fn c (map2 (\<lambda>q r. q @ '' '' @ r) (batch_decode c (input_ids batch))
                 (batch_decode c (generate c batch)))) = (Inr shaped, s')
         \<and> t5_elements c (generate c batch) (input_ids batch) (generate c batch) shaped = Inr new"
  using assms by (auto simp: t5_batch_def Let_def split: prod.splits sum.splits)

text \<open>
  C1, as the code has it. In every batch that yields elements, the reward vector of every
  element is the sample's KL vector \<open>- kl_ctl.value * (logprob - ref_logprob)\<close> with its
  last entry replaced by the sample's shaped score, and that vector is never empty. In the
  decoder-only orchestrator the KL vector is the slice \<^verbatim>\<open>[start : ends[ix]]\<close> of the
  sample's row, so the score lands on the last position of the sample's span. In the
  encoder-decoder orchestrator nothing is sliced: the vector is the whole decoder row, of
  one position less than \<^verbatim>\<open>decoder_input_ids\<close>, and the score lands on the last position
  of the padded row.
\<close>

theorem terminal_reward_overwrite:
  "(ppo_batch c cfg s = (Inr els, s') \<and> ix < length els \<longrightarrow>
      (\<exists>batch s1 shaped all_tokens attn pos logits vals lps ref_lps kl_span.
         next_batch c s = (Inr batch, s1)
       \<and> shape_scores c cfg s1 (reward_fn c (batch_decode c (generate c batch))) = (Inr shaped, s')
       \<and> get_model_inputs c (input_ids batch) (map (drop (shape1 (input_ids batch))) (generate c batch))
            = (all_tokens, attn, pos)
       \<and> rl_forward c (all_tokens, attn, pos) = (logits, vals)
       \<and> next_token_logprobs logits all_tokens = Inr lps
       \<and> next_token_logprobs (ref_forward c (all_tokens, attn, pos)) all_tokens = Inr ref_lps
       \<and> kl_span = slice (map2 (\<lambda>l r. Num (- kl_ctl_value c * (l - r))) (lps ! ix) (ref_lps ! ix))
                      (int (shape1 (input_ids batch)) - 1)
                      (span_ends (int (shape1 (input_ids batch)) - 1) attn ! ix)
       \<and> kl_span \<noteq> []
       \<and> rewards (els ! ix) = kl_span[length kl_span - 1 := shaped ! ix]))
   \<and> (t5_batch c5 cfg5 s5 = (Inr els5, s5') \<and> ix5 < length els5 \<longrightarrow>
      (\<exists>batch s1 shaped inp_ids enc_attn dec_ids dec_attn logits vals lps ref_lps kl_row.
         next_batch c5 s5 = (Inr batch, s1)
       \<and> shape_scores c5 cfg5 s1
            (reward_fn c5 (map2 (\<lambda>q r. q @ '' '' @ r) (batch_decode c5 (input_ids batch))
               (batch_decode c5 (generate c5 batch)))) = (Inr shaped, s5')
       \<and> get_model_inputs c5 (input_ids batch) (generate c5 batch) = (inp_ids, enc_attn, dec_ids, dec_attn)
       \<and> rl_forward c5 (inp_ids, enc_attn, dec_ids, dec_attn) = (logits, vals)
       \<and> next_token_logprobs logits dec_ids = Inr lps
       \<and> next_token_logprobs (ref_forward c5 (inp_ids, enc_attn, dec_ids, dec_attn)) dec_ids = Inr ref_lps
       \<and> kl_row = map2 (\<lambda>l r. Num (- kl_ctl_value c5 * (l - r))) (lps ! ix5) (ref_lps ! ix5)
       \<and> length kl_row = length (dec_ids ! ix5) - 1
       \<and> kl_row \<noteq> []
       \<and> rewards (els5 ! ix5) = kl_row[length kl_row - 1 := shaped ! ix5]))"
proof (intro conjI impI; elim conjE)
  assume b: "ppo_batch c cfg s = (Inr els, s')" and ix: "ix < length els"
  from ppo_batch_Inr [OF b] obtain batch s1 shaped where
    nb: "next_batch c s = (Inr batch, s1)"
    and sh: "shape_scores c cfg s1 (reward_fn c (batch_decode c (generate c batch))) = (Inr shaped, s')"
    and el: "ppo_elements c (generate c batch) (input_ids batch)
              (map (drop (shape1 (input_ids batch))) (generate c batch)) shaped = Inr els"
    by blast
  obtain all_tokens attn pos where
    i: "get_model_inputs c (input_ids batch) (map (drop (shape1 (input_ids batch))) (generate c batch))
          = (all_tokens, attn, pos)"
    by (cases "get_model_inputs c (input_ids batch) (map (drop (shape1 (input_ids batch))) (generate c batch))")
  obtain logits vals where f: "rl_forward c (all_tokens, attn, pos) = (logits, vals)"
    by (cases "rl_forward c (all_tokens, attn, pos)")
  from rewards_per_element [THEN conjunct1, rule_format, OF conjI [OF el conjI [OF i conjI [OF f ix]]]]
  obtain lps ref_lps kl_span where
    "next_token_logprobs logits all_tokens = Inr lps"
    "next_token_logprobs (ref_forward c (all_tokens, attn, pos)) all_tokens = Inr ref_lps"
    "kl_span = slice (map2 (\<lambda>l r. Num (- kl_ctl_value c * (l - r))) (lps ! ix) (ref_lps ! ix))
                      (int (shape1 (input_ids batch)) - 1)
                      (span_ends (int (shape1 (input_ids batch)) - 1) attn ! ix)"
    "kl_span \<noteq> []"
    "rewards (els ! ix) = kl_span[length kl_span - 1 := shaped ! ix]"
    by blast
  with nb sh i f show "\<exists>batch s1 shaped all_tokens attn pos logits vals lps ref_lps kl_span.
         next_batch c s = (Inr batch, s1)
       \<and> shape_scores c cfg s1 (reward_fn c (batch_decode c (generate c batch))) = (Inr shaped, s')
       \<and> get_model_inputs c (input_ids batch) (map (drop (shape1 (input_ids batch))) (generate c batch))
            = (all_tokens, attn, pos)
       \<and> rl_forward c (all_tokens, attn, pos) = (logits, vals)
       \<and> next_token_logprobs logits all_tokens = Inr lps
       \<and> next_token_logprobs (ref_forward c (all_tokens, attn, pos)) all_tokens = Inr ref_lps
       \<and> kl_span = slice (map2 (\<lambda>l r. Num (- kl_ctl_value c * (l - r))) (lps ! ix) (ref_lps ! ix))
                      (int (shape1 (input_ids batch)) - 1)
                      (span_ends (int (shape1 (input_ids batch)) - 1) attn ! ix)
       \<and> kl_span \<noteq> []
       \<and> rewards (els ! ix) = kl_span[length kl_span - 1 := shaped ! ix]"
    by (intro exI conjI)
next
  assume b: "t5_batch c5 cfg5 s5 = (Inr els5, s5')" and ix: "ix5 < length els5"
  from t5_batch_Inr [OF b] obtain batch s1 shaped where
    nb: "next_batch c5 s5 = (Inr batch, s1)"
    and sh: "shape_scores c5 cfg5 s1
            (reward_fn c5 (map2 (\<lambda>q r. q @ '' '' @ r) (batch_decode c5 (input_ids batch))
               (batch_decode c5 (generate c5 batch)))) = (Inr shaped, s5')"
    and el: "t5_elements c5 (generate c5 batch) (input_ids batch) (generate c5 batch) shaped = Inr els5"
    by blast
  obtain inp_ids enc_attn dec_ids dec_attn where
    i: "get_model_inputs c5 (input_ids batch) (generate c5 batch) = (inp_ids, enc_attn, dec_ids, dec_attn)"
    by (cases "get_model_inputs c5 (input_ids batch) (generate c5 batch)")
  obtain logits vals where f: "rl_forward c5 (inp_ids, enc_attn, dec_ids, dec_attn) = (logits, vals)"
    by (cases "rl_forward c5 (inp_ids, enc_attn, dec_ids, dec_attn)")
  from rewards_per_element [THEN conjunct2, rule_format, OF conjI [OF el conjI [OF i conjI [OF f ix]]]]
  obtain lps ref_lps kl_row where
    "next_token_logprobs logits dec_ids = Inr lps"
    "next_token_logprobs (ref_forward c5 (inp_ids, enc_attn, dec_ids, dec_attn)) dec_ids = Inr ref_lps"
    "kl_row = map2 (\<lambda>l r. Num (- kl_ctl_value c5 * (l - r))) (lps ! ix5) (ref_lps ! ix5)"
    "length kl_row = length (dec_ids ! ix5) - 1"
    "kl_row \<noteq> []"
    "rewards (els5 ! ix5) = kl_row[length kl_row - 1 := shaped ! ix5]"
    by blast
  with nb sh i f show "\<exists>batch s1 shaped inp_ids enc_attn dec_ids dec_attn logits vals lps ref_lps kl_row.
         next_batch c5 s5 = (Inr batch, s1)
       \<and> shape_scores c5 cfg5 s1
            (reward_fn c5 (map2 (\<lambda>q r. q @ '' '' @ r) (batch_decode c5 (input_ids batch))
               (batch_decode c5 (generate c5 batch)))) = (Inr shaped, s5')
       \<and> get_model_inputs c5 (input_ids batch) (generate c5 batch) = (inp_ids, enc_attn, dec_ids, dec_attn)
       \<and> rl_forward c5 (inp_ids, enc_attn, dec_ids, dec_attn) = (logits, vals)
       \<and> next_token_logprobs logits dec_ids = Inr lps
       \<and> next_token_logprobs (ref_forward c5 (inp_ids, enc_attn, dec_ids, dec_attn)) dec_ids = Inr ref_lps
       \<and> kl_row = map2 (\<lambda>l r. Num (- kl_ctl_value c5 * (l - r))) (lps ! ix5) (ref_lps ! ix5)
       \<and> length kl_row = length (dec_ids ! ix5) - 1
       \<and> kl_row \<noteq> []
       \<and> rewards (els5 ! ix5) = kl_row[length kl_row - 1 := shaped ! ix5]"
    by (intro exI conjI)
qed

text \<open>
  The padded decoder-only batch and the encoder-decoder batch: the second decoder-only
  sample has a span of two positions, the second encoder-decoder sample keeps all three
  positions of its padded row.
\<close>

theorem terminal_reward_overwrite_witness:
  "map_sum id (map rewards) (fst (ppo_batch demo_padded demo_cfg demo_orch))
     = Inr [[Num (- ((ln 3 - ln 2) / 10)), Num (- ((ln 3 - ln 2) / 10)), Num 2], [Num (- ((ln 3 - ln 2) / 10)), Num (- 1)]]
   \<and> map_sum id (map rewards) (fst (t5_batch demo_t5 demo_cfg demo_orch))
     = Inr [[Num (- ((ln 3 - ln 2) / 10)), Num (- ((ln 3 - ln 2) / 10)), Num 2],
            [Num (- ((ln 3 - ln 2) / 10)), Num (- ((ln 3 - ln 2) / 10)), Num (- 1)]]"
proof -
  have "\<exists>els s'. ppo_batch demo_padded demo_cfg demo_orch = (Inr els, s')
      \<and> map rewards els = [[Num (- ((ln 3 - ln 2) / 10)), Num (- ((ln 3 - ln 2) / 10)), Num 2], [Num (- ((ln 3 - ln 2) / 10)), Num (- 1)]]"
    by (simp add: batch_defs demo_defs demo_padded_def)
  then obtain els s' where "ppo_batch demo_padded demo_cfg demo_orch = (Inr els, s')
      \<and> map rewards els = [[Num (- ((ln 3 - ln 2) / 10)), Num (- ((ln 3 - ln 2) / 10)), Num 2], [Num (- ((ln 3 - ln 2) / 10)), Num (- 1)]]"
    by (elim exE)
  then have b: "ppo_batch demo_padded demo_cfg demo_orch = (Inr els, s')"
    and r: "map rewards els = [[Num (- ((ln 3 - ln 2) / 10)), Num (- ((ln 3 - ln 2) / 10)), Num 2], [Num (- ((ln 3 - ln 2) / 10)), Num (- 1)]]"
    by (rule conjunct1, rule conjunct2)
  have "\<exists>els5 s5. t5_batch demo_t5 demo_cfg demo_orch = (Inr els5, s5)
      \<and> map rewards els5 = [[Num (- ((ln 3 - ln 2) / 10)), Num (- ((ln 3 - ln 2) / 10)), Num 2],
            [Num (- ((ln 3 - ln 2) / 10)), Num (- ((ln 3 - ln 2) / 10)), Num (- 1)]]"
    by (simp add: batch_defs demo_defs demo_t5_def)
  then obtain els5 s5 where "t5_batch demo_t5 demo_cfg demo_orch = (Inr els5, s5)
      \<and> map rewards els5 = [[Num (- ((ln 3 - ln 2) / 10)), Num (- ((ln 3 - ln 2) / 10)), Num 2],
            [Num (- ((ln 3 - ln 2) / 10)), Num (- ((ln 3 - ln 2) / 10)), Num (- 1)]]"
    by (elim exE)
  then have b5: "t5_batch demo_t5 demo_cfg demo_orch = (Inr els5, s5)"
    and r5: "map rewards els5 = [[Num (- ((ln 3 - ln 2) / 10)), Num (- ((ln 3 - ln 2) / 10)), Num 2],
            [Num (- ((ln 3 - ln 2) / 10)), Num (- ((ln 3 - ln 2) / 10)), Num (- 1)]]"
    by (rule conjunct1, rule conjunct2)
  have n: "1 < length els" using arg_cong [OF r, of length] by simp
  have n5: "1 < length els5" using arg_cong [OF r5, of length] by simp
  note t = terminal_reward_overwrite [THEN conjunct1, rule_format, OF conjI [OF b n]]
  note t5 = terminal_reward_overwrite [THEN conjunct2, rule_format, OF conjI [OF b5 n5]]
  have res: ?thesis unfolding b b5 by (simp add: r r5)
  show ?thesis by (insert t t5, rule res)
qed

lemma kl_demo_bound: "- ((ln 3 - ln 2) / 10) \<noteq> (- 1 :: real)"
proof -
  have "ln (3::real) < 3" by (rule ln_less_self) simp
  moreover have "0 < ln (2::real)" by simp
  ultimately have "ln (3::real) - ln 2 < 10" by linarith
  then show ?thesis by simp
qed

text \<open>
  As the specification states it, C1 fails in the encoder-decoder orchestrator. The second
  sample has one generated token (its decoder mask is \<open>[1, 1, 0, 0]\<close>), yet its score
  \<open>- 1\<close> is stored at the third position, which is padding, and the position of its only
  generated token keeps the KL value.
\<close>

theorem t5_score_on_padded_position:
  "map_sum id (map rewards) (fst (t5_batch demo_t5 demo_cfg demo_orch))
     = Inr [[Num (- ((ln 3 - ln 2) / 10)), Num (- ((ln 3 - ln 2) / 10)), Num 2],
            [Num (- ((ln 3 - ln 2) / 10)), Num (- ((ln 3 - ln 2) / 10)), Num (- 1)]]
   \<and> snd (snd (snd (get_model_inputs demo_t5 (input_ids demo_batch) (generate demo_t5 demo_batch)))) ! 1
       = [1, 1, 0, 0]
   \<and> sum_list (drop 1 [1, 1, 0, 0 :: int]) = 1
   \<and> [Num (- ((ln 3 - ln 2) / 10)), Num (- ((ln 3 - ln 2) / 10)), Num (- 1)] ! (1 - 1) \<noteq> Num (- 1)"
  using kl_demo_bound by (simp add: batch_defs demo_t5_def demo_defs)

lemma loop_elements_aux:
  assumes "experience_loop body tick n i s els t = Some y"
  shows "(\<forall>i s new s1. body i s = (Inr new, s1) \<longrightarrow> (\<forall>e \<in> set new. Q e)) \<longrightarrow> (\<forall>e \<in> set els. Q e) \<longrightarrow>
         (\<forall>els' t'. fst y = Inr (els', t') \<longrightarrow> (\<forall>e \<in> set els'. Q e))"
  using assms
proof (induct rule: experience_loop.raw_induct [rotated 1, consumes 1, case_names unfold])
  case (unfold loop body tick n i s els t y)
  note IH = unfold(1) and eq = unfold(2)
  show ?case
  proof (intro impI)
    assume step: "\<forall>i s new s1. body i s = (Inr new, s1) \<longrightarrow> (\<forall>e \<in> set new. Q e)"
      and Q0: "\<forall>e \<in> set els. Q e"
    show "\<forall>els' t'. fst y = Inr (els', t') \<longrightarrow> (\<forall>e \<in> set els'. Q e)"
    proof (cases "int (length els) < n")
      case False
      with eq Q0 show ?thesis by auto
    next
      case True
      obtain r s1 where b: "body i s = (r, s1)" by (cases "body i s")
      show ?thesis
      proof (cases r)
        case (Inl e)
        with eq True b show ?thesis by auto
      next
        case (Inr new)
        with eq True b have run: "loop body tick n (Suc i) s1 (els @ new) (Some (tick i)) = Some y" by simp
        have "\<forall>e \<in> set new. Q e" using step b Inr by blast
        with Q0 have "\<forall>e \<in> set (els @ new). Q e" by auto
        with IH [OF run] step show ?thesis by blast
      qed
    qed
  qed
qed

lemma finish_pushed:
  assumes "finish (experience_loop body tick n 0 s [] None) = Some (Inr (), s')"
    and step: "\<And>i s new s1. body i s = (Inr new, s1) \<Longrightarrow> \<forall>e \<in> set new. Q e"
    and st: "\<And>r s'. experience_loop body tick n 0 s [] None = Some (r, s') \<Longrightarrow> store s' = store s"
  shows "\<exists>els. store s' = store s @ els \<and> (\<forall>e \<in> set els. Q e)"
proof -
  from finish_cases [OF assms(1)] obtain r0 s0 where
    run: "experience_loop body tick n 0 s [] None = Some (r0, s0)"
    and c: "case r0 of Inl e \<Rightarrow> (Inr () :: error + unit) = Inl e \<and> s' = s0
       | Inr (els, t) \<Rightarrow> (t = None \<longrightarrow> (Inr () :: error + unit) = Inl UnboundLocalError \<and> s' = s0)
           \<and> (t \<noteq> None \<longrightarrow> (Inr () :: error + unit) = Inr () \<and> s' = s0\<lparr>store := store s0 @ els\<rparr>)"
    by blast
  from c obtain els t where r0: "r0 = Inr (els, t)" and s': "s' = s0\<lparr>store := store s0 @ els\<rparr>"
    by (cases r0) (auto split: prod.splits)
  have "\<forall>e \<in> set els. Q e"
    using loop_elements_aux [OF run, of Q] step r0 by auto
  moreover have "store s' = store s @ els" using st [OF run] s' by simp
  ultimately show ?thesis by blast
qed

lemma ppo_batch_lengths:
  assumes b: "ppo_batch c cfg s = (Inr new, s1)"
    and vs: "\<forall>inp. map length (snd (rl_forward c inp)) = map length (fst inp)"
  shows "\<forall>e \<in> set new. length (logprobs e) = length (values_t e) \<and> length (values_t e) = length (rewards e)"
proof
  fix e assume "e \<in> set new"
  then obtain ix where ix: "ix < length new" and e: "e = new ! ix" by (auto simp: in_set_conv_nth)
  from ppo_batch_Inr [OF b] obtain samples qs rs shaped where
    el: "ppo_elements c samples qs rs shaped = Inr new" by blast
  obtain all_tokens attn pos where i: "get_model_inputs c qs rs = (all_tokens, attn, pos)"
    by (cases "get_model_inputs c qs rs")
  obtain logits vals where f: "rl_forward c (all_tokens, attn, pos) = (logits, vals)"
    by (cases "rl_forward c (all_tokens, attn, pos)")
  have v: "map length vals = map length all_tokens"
    using vs [rule_format, of "(all_tokens, attn, pos)"] f by simp
  from lengths_per_element [THEN conjunct1, rule_format, OF conjI [OF el conjI [OF i conjI [OF f conjI [OF v ix]]]]]
  show "length (logprobs e) = length (values_t e) \<and> length (values_t e) = length (rewards e)"
    unfolding e by simp
qed

lemma t5_batch_lengths:
  assumes b: "t5_batch c cfg s = (Inr new, s1)"
    and vs: "\<forall>inp. map length (snd (rl_forward c inp)) = map length (fst (snd (snd inp)))"
  shows "\<forall>e \<in> set new. length (logprobs e) = length (values_t e) \<and> length (values_t e) = length (rewards e)"
proof
  fix e assume "e \<in> set new"
  then obtain ix where ix: "ix < length new" and e: "e = new ! ix" by (auto simp: in_set_conv_nth)
  from t5_batch_Inr [OF b] obtain samples qs rs shaped where
    el: "t5_elements c samples qs rs shaped = Inr new" by blast
  obtain ids attn dec dattn where i: "get_model_inputs c qs rs = (ids, attn, dec, dattn)"
    by (cases "get_model_inputs c qs rs")
  obtain logits vals where f: "rl_forward c (ids, attn, dec, dattn) = (logits, vals)"
    by (cases "rl_forward c (ids, attn, dec, dattn)")
  have v: "map length vals = map length dec"
    using vs [rule_format, of "(ids, attn, dec, dattn)"] f by simp
  from lengths_per_element [THEN conjunct2, rule_format, OF conjI [OF el conjI [OF i conjI [OF f conjI [OF v ix]]]]]
  show "length (logprobs e) = length (values_t e) \<and> length (values_t e) = length (rewards e)"
    unfolding e by simp
qed

lemma make_experience_lengths:
  assumes vs: "\<forall>i inp. map length (snd (rl_forward (world i) inp)) = map length (fst inp)"
    and run: "make_experience world cfg n s = Some (Inr (), s')"
  shows "\<exists>els. store s' = store s @ els
           \<and> (\<forall>e \<in> set els. length (logprobs e) = length (values_t e) \<and> length (values_t e) = length (rewards e))"
proof (rule finish_pushed [OF run [unfolded make_experience_def]])
  fix i s new s1 assume "ppo_batch (world i) cfg s = (Inr new, s1)"
  then show "\<forall>e \<in> set new. length (logprobs e) = length (values_t e) \<and> length (values_t e) = length (rewards e)"
    using vs by (intro ppo_batch_lengths) auto
next
  fix r s' assume "experience_loop (\<lambda>i. ppo_batch (world i) cfg) (\<lambda>i. clock_tick (world i)) n 0 s [] None = Some (r, s')"
  then show "store s' = store s" by (rule ppo_loop_keeps_store)
qed

lemma t5_make_experience_lengths:
  assumes vs: "\<forall>i inp. map length (snd (rl_forward (world i) inp)) = map length (fst (snd (snd inp)))"
    and run: "t5_make_experience world cfg n s = Some (Inr (), s')"
  shows "\<exists>els. store s' = store s @ els
           \<and> (\<forall>e \<in> set els. length (logprobs e) = length (values_t e) \<and> length (values_t e) = length (rewards e))"
proof (rule finish_pushed [OF run [unfolded t5_make_experience_def]])
  fix i s new s1 assume "t5_batch (world i) cfg s = (Inr new, s1)"
  then show "\<forall>e \<in> set new. length (logprobs e) = length (values_t e) \<and> length (values_t e) = length (rewards e)"
    using vs by (intro t5_batch_lengths) auto
next
  fix r s' assume "experience_loop (\<lambda>i. t5_batch (world i) cfg) (\<lambda>i. clock_tick (world i)) n 0 s [] None = Some (r, s')"
  then show "store s' = store s" by (rule t5_loop_keeps_store)
qed

text \<open>
  C8. When the value head returns one value per token, the \<open>logprobs\<close>, \<open>values\<close> and
  \<open>rewards\<close> of every element have the same length: in the decoder-only orchestrator the
  number of positions of \<^verbatim>\<open>[start : ends[ix]]\<close> within the \<open>L - 1\<close> positions of the row, in
  the encoder-decoder orchestrator the whole decoder row, one less than the length of
  \<^verbatim>\<open>decoder_input_ids\<close>. So the three lengths agree for every element that a call of
  either \<^verbatim>\<open>make_experience\<close> pushes to the store.
\<close>

theorem element_lengths:
  "(ppo_elements c samples qs rs scores = Inr els \<and> get_model_inputs c qs rs = (all_tokens, attn, pos)
      \<and> rl_forward c (all_tokens, attn, pos) = (logits, vals) \<and> map length vals = map length all_tokens
      \<and> ix < length els \<longrightarrow>
        length (logprobs (els ! ix)) = length (values_t (els ! ix))
      \<and> length (values_t (els ! ix)) = length (rewards (els ! ix))
      \<and> length (rewards (els ! ix)) =
          clamp_index (length (all_tokens ! ix) - 1) (span_ends (int (shape1 qs) - 1) attn ! ix)
            - clamp_index (length (all_tokens ! ix) - 1) (int (shape1 qs) - 1))
   \<and> (t5_elements c5 samples5 qs5 rs5 scores5 = Inr els5
      \<and> get_model_inputs c5 qs5 rs5 = (inp_ids, enc_attn, dec_ids, dec_attn)
      \<and> rl_forward c5 (inp_ids, enc_attn, dec_ids, dec_attn) = (logits5, vals5)
      \<and> map length vals5 = map length dec_ids \<and> ix5 < length els5 \<longrightarrow>
        length (logprobs (els5 ! ix5)) = length (values_t (els5 ! ix5))
      \<and> length (values_t (els5 ! ix5)) = length (rewards (els5 ! ix5))
      \<and> length (rewards (els5 ! ix5)) = length (dec_ids ! ix5) - 1)
   \<and> ((\<forall>i inp. map length (snd (rl_forward (world i) inp)) = map length (fst inp))
      \<and> make_experience world cfg n s = Some (Inr (), s') \<longrightarrow>
        (\<exists>pushed. store s' = store s @ pushed
           \<and> (\<forall>e \<in> set pushed. length (logprobs e) = length (values_t e)
                 \<and> length (values_t e) = length (rewards e))))
   \<and> ((\<forall>i inp. map length (snd (rl_forward (world5 i) inp)) = map length (fst (snd (snd inp))))
      \<and> t5_make_experience world5 cfg n s = Some (Inr (), s5) \<longrightarrow>
        (\<exists>pushed. store s5 = store s @ pushed
           \<and> (\<forall>e \<in> set pushed. length (logprobs e) = length (values_t e)
                 \<and> length (values_t e) = length (rewards e))))"
  using lengths_per_element [of c samples qs rs scores els all_tokens attn pos logits vals ix
      c5 samples5 qs5 rs5 scores5 els5 inp_ids enc_attn dec_ids dec_attn logits5 vals5 ix5]
    make_experience_lengths [of world cfg n s s'] t5_make_experience_lengths [of world5 cfg n s s5]
  by blast

text \<open>
  The padded decoder-only batch and the encoder-decoder batch, as batches and as calls of
  two rollouts.
\<close>

theorem element_lengths_witness:
  "map_sum id (map (\<lambda>e. [length (logprobs e), length (values_t e), length (rewards e)]))
     (ppo_elements demo_padded [[1, 1, 1, 1, 0, 0, 0], [1, 1, 1, 1, 0, 0, 0]] [[1, 1, 1, 1], [1, 1, 1, 1]]
        [[0, 0, 0], [0, 0, 0]] [Num 2, Num (- 1)])
     = Inr [[3, 3, 3], [2, 2, 2]]
   \<and> map_sum id (map (\<lambda>e. [length (logprobs e), length (values_t e), length (rewards e)]))
     (t5_elements demo_t5 [[0, 1, 1, 1], [0, 1, 0, 0]] [[1, 1, 1, 1], [1, 1, 1, 1]]
        [[0, 1, 1, 1], [0, 1, 0, 0]] [Num 2, Num (- 1)])
     = Inr [[3, 3, 3], [3, 3, 3]]
   \<and> map_option (\<lambda>(out, s'). (out, map (\<lambda>e. [length (logprobs e), length (values_t e), length (rewards e)]) (store s')))
        (make_experience (\<lambda>_. demo_padded) demo_cfg 2 demo_orch) = Some (Inr (), [[3, 3, 3], [2, 2, 2]])
   \<and> map_option (\<lambda>(out, s'). (out, map (\<lambda>e. [length (logprobs e), length (values_t e), length (rewards e)]) (store s')))
        (t5_make_experience (\<lambda>_. demo_t5) demo_cfg 2 demo_orch) = Some (Inr (), [[3, 3, 3], [3, 3, 3]])"
proof -
  let ?lens = "\<lambda>e. [length (logprobs e), length (values_t e), length (rewards e)]"
  obtain els where e: "ppo_elements demo_padded [[1, 1, 1, 1, 0, 0, 0], [1, 1, 1, 1, 0, 0, 0]]
        [[1, 1, 1, 1], [1, 1, 1, 1]] [[0, 0, 0], [0, 0, 0]] [Num 2, Num (- 1)] = Inr els"
    and r: "map ?lens els = [[3, 3, 3], [2, 2, 2]]"
    by (simp add: elements_defs demo_padded_def demo_defs)
  obtain els5 where e5: "t5_elements demo_t5 [[0, 1, 1, 1], [0, 1, 0, 0]] [[1, 1, 1, 1], [1, 1, 1, 1]]
        [[0, 1, 1, 1], [0, 1, 0, 0]] [Num 2, Num (- 1)] = Inr els5"
    and r5: "map ?lens els5 = [[3, 3, 3], [3, 3, 3]]"
    by (simp add: elements_defs demo_t5_def demo_defs)
  have n: "1 < length els" using arg_cong [OF r, of length] by simp
  have n5: "1 < length els5" using arg_cong [OF r5, of length] by simp
  have v: "map length [[1 / 2, 1 / 2, 1 / 2, 1 / 2, 1 / 2, 1 / 2, 1 / 2], [1 / 2, 1 / 2, 1 / 2, 1 / 2, 1 / 2, 1 / 2, 1 / 2 :: real]]
      = map length [[1, 1, 1, 1, 0, 0, 0], [1, 1, 1, 1, 0, 0, 0 :: nat]]" by simp
  have v5: "map length [[1 / 2, 1 / 2, 1 / 2, 1 / 2], [1 / 2, 1 / 2, 1 / 2, 1 / 2 :: real]]
      = map length [[0, 1, 1, 1], [0, 1, 0, 0 :: nat]]" by simp
  have "\<exists>s'. make_experience (\<lambda>_. demo_padded) demo_cfg 2 demo_orch = Some (Inr (), s')
      \<and> map ?lens (store s') = [[3, 3, 3], [2, 2, 2]]"
    unfolding make_experience_def
    apply (subst experience_loop.simps)
    apply (simp add: batch_defs demo_padded_def demo_defs)
    apply (subst experience_loop.simps)
    apply (simp add: finish_def)
    done
  then obtain s' where "make_experience (\<lambda>_. demo_padded) demo_cfg 2 demo_orch = Some (Inr (), s')
      \<and> map ?lens (store s') = [[3, 3, 3], [2, 2, 2]]" ..
  then have m: "make_experience (\<lambda>_. demo_padded) demo_cfg 2 demo_orch = Some (Inr (), s')"
    and ms: "map ?lens (store s') = [[3, 3, 3], [2, 2, 2]]" by (rule conjunct1, rule conjunct2)
  have "\<exists>s5. t5_make_experience (\<lambda>_. demo_t5) demo_cfg 2 demo_orch = Some (Inr (), s5)
      \<and> map ?lens (store s5) = [[3, 3, 3], [3, 3, 3]]"
    unfolding t5_make_experience_def
    apply (subst experience_loop.simps)
    apply (simp add: batch_defs demo_t5_def demo_defs)
    apply (subst experience_loop.simps)
    apply (simp add: finish_def)
    done
  then obtain s5 where "t5_make_experience (\<lambda>_. demo_t5) demo_cfg 2 demo_orch = Some (Inr (), s5)
      \<and> map ?lens (store s5) = [[3, 3, 3], [3, 3, 3]]" ..
  then have m5: "t5_make_experience (\<lambda>_. demo_t5) demo_cfg 2 demo_orch = Some (Inr (), s5)"
    and ms5: "map ?lens (store s5) = [[3, 3, 3], [3, 3, 3]]" by (rule conjunct1, rule conjunct2)
  have c: "\<forall>i inp. map length (snd (rl_forward ((\<lambda>_. demo_padded) i) inp)) = map length (fst inp)"
    by (auto simp: demo_padded_def demo_defs split: prod.splits)
  have c5: "\<forall>i inp. map length (snd (rl_forward ((\<lambda>_. demo_t5) i) inp)) = map length (fst (snd (snd inp)))"
    by (auto simp: demo_t5_def split: prod.splits)
  note t = element_lengths [THEN conjunct1, rule_format,
      OF conjI [OF e conjI [OF demo_padded_inputs conjI [OF demo_padded_forward conjI [OF v n]]]]]
  note t5 = element_lengths [THEN conjunct2, THEN conjunct1, rule_format,
      OF conjI [OF e5 conjI [OF demo_t5_inputs conjI [OF demo_t5_forward conjI [OF v5 n5]]]]]
  note u = element_lengths [THEN conjunct2, THEN conjunct2, THEN conjunct1, rule_format, OF conjI [OF c m]]
  note u5 = element_lengths [THEN conjunct2, THEN conjunct2, THEN conjunct2, rule_format, OF conjI [OF c5 m5]]
  have res: ?thesis unfolding e e5 m m5 by (simp add: r r5 ms ms5)
  show ?thesis by (insert t t5 u u5, rule res)
qed

end
